theory Spec2Isabelle
  imports Complex_Main "HOL-Library.Word"
begin

section \<open>The gateway client of hikari.net.gateway\<close>

text \<open>
  A shallow embedding of \<^verbatim>\<open>GatewayClient\<close> (src/hikari/net/gateway.py). The client is a
  record of its attributes; every coroutine is a function from the machine (the client,
  the trace of calls it made on its collaborators, and the index of the next clock
  reading) to a result and the machine afterwards. A raised exception is the \<open>Inl\<close> of
  the result. Logging is not modelled.
\<close>

subsection \<open>Python values\<close>

text \<open>
  Timestamps are Python floats that are either \<^verbatim>\<open>float("nan")\<close> or a reading of
  \<^verbatim>\<open>time.perf_counter()\<close>. Finite readings are ordered as the reals are; every
  ordering comparison with NaN is false.
\<close>

datatype pyfloat = NaN | Fin real

fun py_lt :: "pyfloat \<Rightarrow> pyfloat \<Rightarrow> bool" where
  "py_lt (Fin a) (Fin b) = (a < b)"
| "py_lt _ _ = False"

fun py_ge :: "pyfloat \<Rightarrow> pyfloat \<Rightarrow> bool" where
  "py_ge (Fin a) (Fin b) = (a \<ge> b)"
| "py_ge _ _ = False"

fun isnan :: "pyfloat \<Rightarrow> bool" where
  "isnan NaN = True"
| "isnan (Fin _) = False"

text \<open>
  Payloads are what the JSON codec produces and consumes. A dict is an association list
  in insertion order with distinct keys.
\<close>

datatype json =
    JNull
  | JBool bool
  | JInt int
  | JFloat real
  | JStr string
  | JList "json list"
  | JObj "(string \<times> json) list"

type_synonym bytes = "8 word list"

datatype pydata = PyStr string | PyBytes bytes

datatype WSMsgType =
  CONTINUATION | TEXT | BINARY | PING | PONG | CLOSE | CLOSING | CLOSED | ERROR

text \<open>
  An inbound WebSocket message. A \<open>Close\<close> message carries the value that
  \<^verbatim>\<open>ws.close_code\<close> holds once it has been received.
\<close>

datatype ws_message =
    Continuation
  | Text string
  | Binary bytes
  | Ping
  | Pong
  | Close "int option"
  | Closing
  | Closed
  | ErrorMsg

fun msg_type :: "ws_message \<Rightarrow> WSMsgType" where
  "msg_type Continuation = CONTINUATION"
| "msg_type (Text _) = TEXT"
| "msg_type (Binary _) = BINARY"
| "msg_type Ping = PING"
| "msg_type Pong = PONG"
| "msg_type (Close _) = CLOSE"
| "msg_type Closing = CLOSING"
| "msg_type Closed = CLOSED"
| "msg_type ErrorMsg = ERROR"

subsection \<open>Errors\<close>

text \<open>
  The message of an exception built by an f-string is kept as its pieces: the literal
  text and the interpolated values.
\<close>

datatype piece =
    Lit string
  | Interp_nat nat
  | Interp_json json
  | Interp_type WSMsgType

text \<open>
  The exception classes the module raises, the Python built-in ones its subscripting,
  its division and its attribute accesses raise, and one constructor for each collaborator that may fail
  (the receive timeout of the socket, the cancellation of an await, the dialler, the
  inflater, the JSON decoder).
\<close>

datatype error =
    GatewayError "piece list"
  | GatewayZombiedError
  | GatewayMustReconnectError
  | GatewayInvalidSessionError bool
  | GatewayInvalidTokenError
  | GatewayNeedsShardingError
  | GatewayConnectionClosedError "int option"
  | GatewayClientClosedError
  | KeyError string
  | TypeError
  | OverflowError
  | AttributeError
  | TimeoutError
  | CancelledError
  | ClientConnectionError
  | ZlibError
  | JSONDecodeError

subsection \<open>The client, its collaborators and the machine\<close>

datatype session = ClientSession

record gateway_client =
  closed_event :: bool
  compression :: bool
  connected_at :: pyfloat
  guild_subscriptions :: bool
  large_threshold :: int
  last_heartbeat_sent :: pyfloat
  last_heartbeat_ack_received :: pyfloat
  last_ping_sent :: pyfloat
  last_pong_received :: pyfloat
  presence :: "json option"
  receive_timeout :: real
  session :: "session option"
  session_id :: "string option"
  seq :: json
  shard_id :: int
  shard_count :: int
  token :: string
  ws :: "ws_message list option"
  zlib :: bytes
  url :: string

text \<open>
  \<open>presence\<close> is \<open>Some p\<close> for a presence object whose \<^verbatim>\<open>to_dict()\<close> returns \<open>p\<close>.
  \<open>ws\<close> is \<open>None\<close> for the attribute \<^verbatim>\<open>None\<close> and \<open>Some fs\<close> for a socket that will
  deliver the frames \<open>fs\<close>; a receive on a socket with no frame left ends in the receive
  timeout. \<open>zlib\<close> is the inflate context: all the bytes fed to the decompressor so far.
\<close>

text \<open>
  The trace records the calls the client makes on its collaborators, in the order it
  makes them: the session and the socket it opens, the tasks it creates, the permit it
  acquires from the rate limiter, the text, ping or pong it writes to the socket, the
  wait on the latch with its timeout, the call of the dispatch sink with its three
  arguments, the closes and the setting of the latch. A call on the rate limiter or a
  write to the socket returns; the modules \<^verbatim>\<open>errors\<close> and \<^verbatim>\<open>ratelimits\<close> are not part
  of the sources.
\<close>

datatype task_spec = PingKeepAlive | HeartbeatKeepAlive real

datatype event =
    EvSessionOpen
  | EvWsConnect string
  | EvCreateTask task_spec
  | EvAcquire
  | EvSendStr string
  | EvPing
  | EvPong
  | EvWaitFor real
  | EvDispatch gateway_client json json
  | EvWsClose
  | EvSessionClose
  | EvLatchSet

record close_codes =
  AUTHENTICATION_FAILED :: int
  SESSION_TIMEOUT :: int
  INVALID_SEQ :: int
  SHARDING_REQUIRED :: int

text \<open>
  What the module takes from outside: the injected JSON codec, the inflater (a function
  of the bytes fed before and of the new chunk), the clock (its successive readings),
  the strings of the \<^verbatim>\<open>platform\<close> module, the members of
  \<^verbatim>\<open>errors.GatewayCloseCode\<close>, whose module is not part of the sources, and what
  awaiting \<^verbatim>\<open>asyncio.shield(self.ws.close())\<close> and \<^verbatim>\<open>asyncio.shield(self.session.close())\<close>
  raises, if anything, after the calls made so far.
\<close>

record env =
  json_serialize :: "json \<Rightarrow> string"
  json_deserialize :: "pydata \<Rightarrow> json option"
  zlib_decompress :: "bytes \<Rightarrow> bytes \<Rightarrow> bytes option"
  perf_clock :: "nat \<Rightarrow> real"
  platform_system :: string
  platform_release :: string
  python_implementation :: string
  python_revision :: string
  python_version :: string
  GatewayCloseCode :: close_codes
  ws_close :: "event list \<Rightarrow> error option"
  session_close :: "event list \<Rightarrow> error option"

record machine =
  self :: gateway_client
  trace :: "event list"
  tick :: nat

definition emit :: "event \<Rightarrow> machine \<Rightarrow> machine" where
  "emit ev m = m\<lparr>trace := trace m @ [ev]\<rparr>"

definition perf_counter :: "env \<Rightarrow> machine \<Rightarrow> real \<times> machine" where
  "perf_counter e m = (perf_clock e (tick m), m\<lparr>tick := Suc (tick m)\<rparr>)"

text \<open>
  A coroutine that raises stops the ones after it; \<open>and_then\<close> is that sequencing, and
  \<open>lift\<close> runs a computation that touches nothing but may raise.
\<close>

definition and_then ::
  "(machine \<Rightarrow> (error + 'a) \<times> machine) \<Rightarrow> ('a \<Rightarrow> machine \<Rightarrow> (error + 'b) \<times> machine)
     \<Rightarrow> machine \<Rightarrow> (error + 'b) \<times> machine" where
  "and_then f g m = (case f m of (Inl err, m1) \<Rightarrow> (Inl err, m1) | (Inr x, m1) \<Rightarrow> g x m1)"

definition lift :: "error + 'a \<Rightarrow> machine \<Rightarrow> (error + 'a) \<times> machine" where
  "lift r m = (r, m)"

subsection \<open>Python operators on payloads\<close>

text \<open>\<^verbatim>\<open>obj[key]\<close> with a string key: only a dict has one, and only for a key it holds.\<close>

fun py_getitem :: "json \<Rightarrow> string \<Rightarrow> error + json" where
  "py_getitem (JObj kvs) k = (case map_of kvs k of None \<Rightarrow> Inl (KeyError k) | Some v \<Rightarrow> Inr v)"
| "py_getitem _ k = Inl TypeError"

text \<open>\<^verbatim>\<open>x == n\<close> for an integer literal \<open>n\<close>: numbers compare by value, a bool is 0 or 1.\<close>

fun py_eq_int :: "json \<Rightarrow> int \<Rightarrow> bool" where
  "py_eq_int (JInt i) n = (i = n)"
| "py_eq_int (JFloat r) n = (r = of_int n)"
| "py_eq_int (JBool b) n = ((if b then 1 else 0) = n)"
| "py_eq_int _ n = False"

text \<open>\<^verbatim>\<open>bool(x)\<close>.\<close>

fun py_bool :: "json \<Rightarrow> bool" where
  "py_bool JNull = False"
| "py_bool (JBool b) = b"
| "py_bool (JInt i) = (i \<noteq> 0)"
| "py_bool (JFloat r) = (r \<noteq> 0)"
| "py_bool (JStr s) = (s \<noteq> [])"
| "py_bool (JList xs) = (xs \<noteq> [])"
| "py_bool (JObj kvs) = (kvs \<noteq> [])"

text \<open>
  \<^verbatim>\<open>x / 1_000.0\<close>: defined on numbers and bools. An int is converted to a float first,
  which raises OverflowError from \<^verbatim>\<open>2**1024 - 2**970\<close> on, the first int that rounds past the
  largest double. The quotient is taken in the reals: the rounding of the conversion
  and of the float division is not modelled (41250 / 1000.0 is exactly 41.25).
\<close>

fun py_truediv_1000 :: "json \<Rightarrow> error + real" where
  "py_truediv_1000 (JInt i) =
     (if \<bar>i\<bar> < 2 ^ 1024 - 2 ^ 970 then Inr (of_int i / 1000) else Inl OverflowError)"
| "py_truediv_1000 (JFloat r) = Inr (r / 1000)"
| "py_truediv_1000 (JBool b) = Inr ((if b then 1 else 0) / 1000)"
| "py_truediv_1000 _ = Inl TypeError"

text \<open>\<^verbatim>\<open>buffer.endswith(suffix)\<close>.\<close>

definition endswith :: "bytes \<Rightarrow> bytes \<Rightarrow> bool" where
  "endswith buffer sfx =
     (length sfx \<le> length buffer \<and> drop (length buffer - length sfx) buffer = sfx)"

definition sentinel :: bytes where
  "sentinel = [0x00, 0x00, 0xFF, 0xFF]"

subsection \<open>Construction and properties\<close>

text \<open>
  \<^verbatim>\<open>__init__\<close>, its keyword arguments in the order of the signature (the codec and the
  dispatch sink are in \<open>env\<close> and in the trace). \<^verbatim>\<open>shard_count > 1\<close> is evaluated on
  the argument as given and raises on \<^verbatim>\<open>None\<close>.
\<close>

definition init_client ::
  "bool \<Rightarrow> bool \<Rightarrow> json option \<Rightarrow> int \<Rightarrow> real \<Rightarrow> string option \<Rightarrow> json \<Rightarrow> int option \<Rightarrow> int option
     \<Rightarrow> string \<Rightarrow> string \<Rightarrow> error + gateway_client" where
  "init_client compression' guild_subscriptions' initial_presence large_threshold'
       receive_timeout' session_id' seq' shard_id' shard_count' token' url' =
     (case shard_count' of
        None \<Rightarrow> Inl TypeError
      | Some _ \<Rightarrow>
          Inr \<lparr> closed_event = False,
                compression = compression',
                connected_at = NaN,
                guild_subscriptions = guild_subscriptions',
                large_threshold = large_threshold',
                last_heartbeat_sent = NaN,
                last_heartbeat_ack_received = NaN,
                last_ping_sent = NaN,
                last_pong_received = NaN,
                presence = initial_presence,
                receive_timeout = receive_timeout',
                session = None,
                session_id = session_id',
                seq = seq',
                shard_id = (case (shard_id', shard_count') of (Some i, Some _) \<Rightarrow> i | _ \<Rightarrow> 0),
                shard_count = (case (shard_id', shard_count') of (Some _, Some n) \<Rightarrow> n | _ \<Rightarrow> 1),
                token = token',
                ws = None,
                zlib = [],
                url = url' @ ''?v=7&encoding=json''
                        @ (if compression' then ''&compress=zlib-stream'' else []) \<rparr>)"

text \<open>The constructor called with only \<^verbatim>\<open>token\<close> and \<^verbatim>\<open>url\<close>: every default.\<close>

definition default_client :: "string \<Rightarrow> string \<Rightarrow> error + gateway_client" where
  "default_client token' url' =
     init_client True True None 1000 10 None JNull (Some 0) (Some 1) token' url'"

definition is_connected :: "gateway_client \<Rightarrow> bool" where
  "is_connected c = (\<not> isnan (connected_at c))"

subsection \<open>send\<close>

definition send :: "env \<Rightarrow> json \<Rightarrow> machine \<Rightarrow> (error + unit) \<times> machine" where
  "send e payload m =
     (let payload_str = json_serialize e payload in
      if length payload_str > 4096 then
        (Inl (GatewayError
           [Lit ''Tried to send a payload greater than 4096 bytes in size (was actually '',
            Interp_nat (length payload_str)]), m)
      else
        let m1 = emit EvAcquire m in
        case ws (self m1) of
          None \<Rightarrow> (Inl AttributeError, m1)
        | Some _ \<Rightarrow> (Inr (), emit (EvSendStr payload_str) m1))"

subsection \<open>heartbeat_keep_alive\<close>

datatype loop_ctl = Again | Done

text \<open>
  One turn of the \<^verbatim>\<open>while not self.closed_event.is_set()\<close> loop of
  \<^verbatim>\<open>heartbeat_keep_alive\<close>: \<open>Done\<close> when the latch is set, otherwise the zombie
  check, the heartbeat, the stamp and the wait on the latch.
\<close>

definition heartbeat_cycle :: "env \<Rightarrow> real \<Rightarrow> machine \<Rightarrow> (error + loop_ctl) \<times> machine" where
  "heartbeat_cycle e heartbeat_interval m =
     (if closed_event (self m) then (Inr Done, m)
      else if py_lt (last_heartbeat_ack_received (self m)) (last_heartbeat_sent (self m)) then
        (Inl GatewayZombiedError, m)
      else
        case send e (JObj [(''op'', JInt 1), (''d'', seq (self m))]) m of
          (Inl err, m1) \<Rightarrow> (Inl err, m1)
        | (Inr _, m1) \<Rightarrow>
            (let (t, m2) = perf_counter e m1;
                 m3 = m2\<lparr>self := (self m2)\<lparr>last_heartbeat_sent := Fin t\<rparr>\<rparr>
             in (Inr Again, emit (EvWaitFor heartbeat_interval) m3)))"

subsection \<open>identify and resume\<close>

definition identify_payload :: "env \<Rightarrow> gateway_client \<Rightarrow> json" where
  "identify_payload e c =
     JObj [(''op'', JInt 2),
           (''d'', JObj ([(''token'', JStr (token c)),
                          (''compress'', JBool False),
                          (''large_threshold'', JInt (large_threshold c)),
                          (''properties'',
                             JObj [(''$os'', JStr (platform_system e @ '' '' @ platform_release e)),
                                   (''$browser'', JStr ''hikari/1.0.0a1''),
                                   (''$device'',
                                      JStr (python_implementation e @ '' '' @ python_revision e
                                              @ '' '' @ python_version e))]),
                          (''guild_subscriptions'', JBool (guild_subscriptions c)),
                          (''shard'', JList [JInt (shard_id c), JInt (shard_count c)])]
                         @ (case presence c of None \<Rightarrow> [] | Some p \<Rightarrow> [(''presence'', p)])))]"

definition identify :: "env \<Rightarrow> machine \<Rightarrow> (error + unit) \<times> machine" where
  "identify e m = send e (identify_payload e (self m)) m"

text \<open>
  \<^verbatim>\<open>self.session_id\<close> goes into the payload as it is: \<^verbatim>\<open>None\<close> is null, a string is
  that string.
\<close>

definition resume_payload :: "gateway_client \<Rightarrow> json" where
  "resume_payload c =
     JObj [(''op'', JInt 6),
           (''d'', JObj [(''token'', JStr (token c)),
                         (''seq'', seq c),
                         (''session_id'',
                            (case session_id c of None \<Rightarrow> JNull | Some sid \<Rightarrow> JStr sid))])]"

definition resume :: "env \<Rightarrow> machine \<Rightarrow> (error + unit) \<times> machine" where
  "resume e m = send e (resume_payload (self m)) m"

subsection \<open>ping_keep_alive\<close>

text \<open>One turn of the loop of \<^verbatim>\<open>ping_keep_alive\<close>.\<close>

definition ping_cycle :: "env \<Rightarrow> machine \<Rightarrow> (error + loop_ctl) \<times> machine" where
  "ping_cycle e m =
     (if closed_event (self m) then (Inr Done, m)
      else case ws (self m) of
          None \<Rightarrow> (Inl AttributeError, m)
        | Some _ \<Rightarrow>
            (let (t, m1) = perf_counter e (emit EvPing m);
                 m2 = m1\<lparr>self := (self m1)\<lparr>last_ping_sent := Fin t\<rparr>\<rparr>
             in (Inr Again, emit (EvWaitFor (0.75 * receive_timeout (self m2))) m2)))"

subsection \<open>recv\<close>

text \<open>The error for a close code, lines 275 to 284.\<close>

definition close_error :: "env \<Rightarrow> int option \<Rightarrow> error" where
  "close_error e close_code =
     (if close_code = Some (AUTHENTICATION_FAILED (GatewayCloseCode e)) then
        GatewayInvalidTokenError
      else if close_code = Some (SESSION_TIMEOUT (GatewayCloseCode e))
            \<or> close_code = Some (INVALID_SEQ (GatewayCloseCode e)) then
        GatewayInvalidSessionError False
      else if close_code = Some (SHARDING_REQUIRED (GatewayCloseCode e)) then
        GatewayNeedsShardingError
      else GatewayConnectionClosedError close_code)"

text \<open>
  The inner loop of the binary branch: frames are read and appended until the buffer
  ends with the sentinel. The result comes with the frames not yet read.
\<close>

fun recv_binary :: "bytes \<Rightarrow> ws_message list \<Rightarrow> (error + bytes) \<times> ws_message list" where
  "recv_binary buffer [] =
     (if endswith buffer sentinel then (Inr buffer, []) else (Inl TimeoutError, []))"
| "recv_binary buffer (message # fs) =
     (if endswith buffer sentinel then (Inr buffer, message # fs)
      else case message of
          Binary data \<Rightarrow> recv_binary (buffer @ data) fs
        | _ \<Rightarrow> (Inl (GatewayError [Lit ''Expected a binary message but got '',
                                   Interp_type (msg_type message)]), fs))"

definition decode :: "env \<Rightarrow> pydata \<Rightarrow> error + json" where
  "decode e data = (case json_deserialize e data of None \<Rightarrow> Inl JSONDecodeError | Some j \<Rightarrow> Inr j)"

text \<open>
  The outer loop, over the frames the socket delivers. The result comes with the frames
  not yet read. A frame of a type no branch names is skipped.
\<close>

fun recv_loop ::
  "env \<Rightarrow> ws_message list \<Rightarrow> machine \<Rightarrow> (error + json) \<times> ws_message list \<times> machine" where
  "recv_loop e [] m = (Inl TimeoutError, [], m)"
| "recv_loop e (Text data # fs) m = (decode e (PyStr data), fs, m)"
| "recv_loop e (Binary data # fs) m =
     (case recv_binary data fs of
        (Inl err, rest) \<Rightarrow> (Inl err, rest, m)
      | (Inr buffer, rest) \<Rightarrow>
          (let m1 = m\<lparr>self := (self m)\<lparr>zlib := zlib (self m) @ buffer\<rparr>\<rparr> in
           case zlib_decompress e (zlib (self m)) buffer of
             None \<Rightarrow> (Inl ZlibError, rest, m1)
           | Some pl \<Rightarrow> (decode e (PyBytes pl), rest, m1)))"
| "recv_loop e (Ping # fs) m = recv_loop e fs (emit EvPong m)"
| "recv_loop e (Pong # fs) m =
     (let (t, m1) = perf_counter e m
      in recv_loop e fs (m1\<lparr>self := (self m1)\<lparr>last_pong_received := Fin t\<rparr>\<rparr>))"
| "recv_loop e (Close close_code # fs) m = (Inl (close_error e close_code), fs, m)"
| "recv_loop e (Closing # fs) m = (Inl GatewayClientClosedError, fs, m)"
| "recv_loop e (Closed # fs) m = (Inl GatewayClientClosedError, fs, m)"
| "recv_loop e (ErrorMsg # fs) m =
     (Inl (GatewayError [Lit ''Unexpected exception occurred'']), fs, m)"
| "recv_loop e (Continuation # fs) m = recv_loop e fs m"

definition recv :: "env \<Rightarrow> machine \<Rightarrow> (error + json) \<times> machine" where
  "recv e m =
     (case ws (self m) of
        None \<Rightarrow> (Inl AttributeError, m)
      | Some fs \<Rightarrow>
          (case recv_loop e fs m of
             (r, rest, m1) \<Rightarrow> (r, m1\<lparr>self := (self m1)\<lparr>ws := Some rest\<rparr>\<rparr>)))"

subsection \<open>poll_events\<close>

text \<open>One turn of the \<^verbatim>\<open>while True\<close> loop of \<^verbatim>\<open>poll_events\<close>.\<close>

definition poll_cycle :: "env \<Rightarrow> machine \<Rightarrow> (error + loop_ctl) \<times> machine" where
  "poll_cycle e =
     and_then (recv e) (\<lambda>next.
     and_then (lift (py_getitem next ''op'')) (\<lambda>op.
     and_then (lift (py_getitem next ''d'')) (\<lambda>d.
       if py_eq_int op 0 then
         and_then (lift (py_getitem next ''s'')) (\<lambda>s m.
         and_then (lift (py_getitem next ''t'')) (\<lambda>event_name m'.
             (Inr Again, emit (EvDispatch (self m') event_name d) m'))
           (m\<lparr>self := (self m)\<lparr>seq := s\<rparr>\<rparr>))
       else if py_eq_int op 1 then
         and_then (send e (JObj [(''op'', JInt 11)])) (\<lambda>_. lift (Inr Again))
       else if py_eq_int op 7 then
         lift (Inl GatewayMustReconnectError)
       else if py_eq_int op 9 then
         lift (Inl (GatewayInvalidSessionError (py_bool d)))
       else if py_eq_int op 11 then
         (\<lambda>m. let (t, m1) = perf_counter e m
               in (Inr Again, m1\<lparr>self := (self m1)\<lparr>last_heartbeat_ack_received := Fin t\<rparr>\<rparr>))
       else lift (Inr Again))))"

subsection \<open>close\<close>

text \<open>\<^verbatim>\<open>with contextlib.suppress(exc):\<close> around a block.\<close>

definition suppress ::
  "error \<Rightarrow> (machine \<Rightarrow> (error + unit) \<times> machine) \<Rightarrow> machine \<Rightarrow> (error + unit) \<times> machine" where
  "suppress exc block m =
     (case block m of
        (Inl err, m1) \<Rightarrow> (if err = exc then (Inr (), m1) else (Inl err, m1))
      | (Inr u, m1) \<Rightarrow> (Inr u, m1))"

text \<open>
  \<^verbatim>\<open>await asyncio.shield(self.ws.close())\<close>: on \<^verbatim>\<open>None\<close> the attribute access raises
  AttributeError before anything is called; on a socket the call is made and what it
  raises is the environment's. The same for the session.
\<close>

definition ws_close_call :: "env \<Rightarrow> machine \<Rightarrow> (error + unit) \<times> machine" where
  "ws_close_call e m =
     (case ws (self m) of
        None \<Rightarrow> (Inl AttributeError, m)
      | Some _ \<Rightarrow>
          (case ws_close e (trace m) of None \<Rightarrow> Inr () | Some err \<Rightarrow> Inl err, emit EvWsClose m))"

definition session_close_call :: "env \<Rightarrow> machine \<Rightarrow> (error + unit) \<times> machine" where
  "session_close_call e m =
     (case session (self m) of
        None \<Rightarrow> (Inl AttributeError, m)
      | Some _ \<Rightarrow>
          (case session_close e (trace m) of None \<Rightarrow> Inr () | Some err \<Rightarrow> Inl err,
           emit EvSessionClose m))"

text \<open>
  Only AttributeError is suppressed: any other exception of the two awaits leaves
  \<^verbatim>\<open>close\<close> at once, before the latch is looked at.
\<close>

definition close :: "env \<Rightarrow> machine \<Rightarrow> (error + unit) \<times> machine" where
  "close e =
     and_then (suppress AttributeError (ws_close_call e)) (\<lambda>_.
     and_then (suppress AttributeError (session_close_call e)) (\<lambda>_ m.
       if \<not> closed_event (self m)
       then (Inr (), emit EvLatchSet (m\<lparr>self := (self m)\<lparr>closed_event := True\<rparr>\<rparr>))
       else (Inr (), m)))"

subsection \<open>connect\<close>

text \<open>
  Lines 119 to 137: the session, the dial (\<open>None\<close> when \<^verbatim>\<open>ws_connect\<close> raises, else the
  frames the new socket will deliver), the ping task, HELLO and the heartbeat task.
  A created task is recorded. Here, and in \<open>connect_authenticate\<close>, \<open>connect_body\<close> and
  \<open>connect\<close>, it takes its first turn at the gather: this is the run in which the awaits of
  lines 130 to 143 return without letting another task in. The runs in which they do not are
  those of \<open>connect_until_gather\<close> below.
\<close>

definition connect_handshake ::
  "env \<Rightarrow> ws_message list option \<Rightarrow> machine \<Rightarrow> (error + real) \<times> machine" where
  "connect_handshake e dial m =
     (let m1 = emit EvSessionOpen (m\<lparr>self := (self m)\<lparr>session := Some ClientSession\<rparr>\<rparr>);
          m2 = emit (EvWsConnect (url (self m1))) m1
      in case dial of
          None \<Rightarrow> (Inl ClientConnectionError, m2)
        | Some fs \<Rightarrow>
            (let (t, m3) = perf_counter e (m2\<lparr>self := (self m2)\<lparr>ws := Some fs\<rparr>\<rparr>);
                 m4 = m3\<lparr>self := (self m3)\<lparr>connected_at := Fin t\<rparr>\<rparr>;
                 m5 = emit (EvCreateTask PingKeepAlive) m4
             in and_then (recv e) (\<lambda>pl.
                and_then (lift (py_getitem pl ''op'')) (\<lambda>op.
                  if \<not> py_eq_int op 10 then
                    lift (Inl (GatewayError [Lit ''Expected HELLO opcode 10 but received '',
                                             Interp_json op]))
                  else
                    and_then (lift (py_getitem pl ''d'')) (\<lambda>d.
                    and_then (lift (py_getitem d ''heartbeat_interval'')) (\<lambda>ms.
                    and_then (lift (py_truediv_1000 ms)) (\<lambda>hb_interval m6.
                      (Inr hb_interval,
                       emit (EvCreateTask (HeartbeatKeepAlive hb_interval)) m6)))))) m5))"

text \<open>Lines 139 to 144.\<close>

definition connect_authenticate :: "env \<Rightarrow> machine \<Rightarrow> (error + unit) \<times> machine" where
  "connect_authenticate e m =
     (if session_id (self m) = None then identify e m else resume e m)"

text \<open>
  Lines 146 to 148. The three tasks run on one event loop, one turn of one task at a
  time; which task takes the next turn is given by a schedule. The first task that
  raises ends the gather with its exception. \<^verbatim>\<open>poll_events\<close> never returns, so the
  gather never returns either: while no task has raised, connect is still running.
\<close>

datatype task = PingTask | HeartbeatTask | PollTask

datatype outcome = Running | Raised error

fun task_turn :: "env \<Rightarrow> real \<Rightarrow> task \<Rightarrow> machine \<Rightarrow> (error + loop_ctl) \<times> machine" where
  "task_turn e hb PingTask m = ping_cycle e m"
| "task_turn e hb HeartbeatTask m = heartbeat_cycle e hb m"
| "task_turn e hb PollTask m = poll_cycle e m"

fun gather_tasks :: "env \<Rightarrow> real \<Rightarrow> task list \<Rightarrow> machine \<Rightarrow> outcome \<times> machine" where
  "gather_tasks e hb [] m = (Running, m)"
| "gather_tasks e hb (t # ts) m =
     (case task_turn e hb t m of
        (Inl err, m1) \<Rightarrow> (Raised err, m1)
      | (Inr _, m1) \<Rightarrow> gather_tasks e hb ts m1)"

text \<open>The \<^verbatim>\<open>finally\<close> block, lines 150 to 154.\<close>

definition connect_finally :: "machine \<Rightarrow> machine" where
  "connect_finally m =
     m\<lparr>self := (self m)\<lparr>connected_at := NaN,
                         last_ping_sent := NaN,
                         last_pong_received := NaN,
                         last_heartbeat_sent := NaN,
                         last_heartbeat_ack_received := NaN\<rparr>\<rparr>"

definition connect_body ::
  "env \<Rightarrow> ws_message list option \<Rightarrow> task list \<Rightarrow> machine \<Rightarrow> outcome \<times> machine" where
  "connect_body e dial sched m =
     (case connect_handshake e dial m of
        (Inl err, m1) \<Rightarrow> (Raised err, m1)
      | (Inr hb_interval, m1) \<Rightarrow>
          (case connect_authenticate e m1 of
             (Inl err, m2) \<Rightarrow> (Raised err, m2)
           | (Inr _, m2) \<Rightarrow> gather_tasks e hb_interval sched m2))"

definition connect ::
  "env \<Rightarrow> ws_message list option \<Rightarrow> task list \<Rightarrow> machine \<Rightarrow> outcome \<times> machine" where
  "connect e dial sched m =
     (case connect_body e dial sched m of
        (Running, m1) \<Rightarrow> (Running, m1)
      | (Raised err, m1) \<Rightarrow> (Raised err, connect_finally m1))"

subsection \<open>connect while its tasks run\<close>

text \<open>
  A task made by \<^verbatim>\<open>asyncio.create_task\<close> takes its turns whenever \<^verbatim>\<open>connect\<close> is
  suspended in an await, not only at the gather: the ping task of line 126 while line 130
  waits for a frame, and the ping and heartbeat tasks while \<^verbatim>\<open>identify\<close> or \<^verbatim>\<open>resume\<close> waits
  for the rate limiter at line 301. Which turns are taken at each of the two awaits is
  given by a schedule, as at the gather; a turn is one pass of the task's loop. A task that
  does not exist yet takes no turn: the heartbeat task before line 137, and
  \<^verbatim>\<open>poll_events\<close>, which is started by the gather. A task that raised is finished: it takes
  no further turn and its exception is kept in the task.
\<close>

fun early_turn ::
  "env \<Rightarrow> real option \<Rightarrow> task \<Rightarrow> machine \<Rightarrow> ((error + loop_ctl) \<times> machine) option" where
  "early_turn e hb PingTask m = Some (ping_cycle e m)"
| "early_turn e (Some hb_interval) HeartbeatTask m = Some (heartbeat_cycle e hb_interval m)"
| "early_turn e None HeartbeatTask m = None"
| "early_turn e hb PollTask m = None"

fun early_turns ::
  "env \<Rightarrow> real option \<Rightarrow> task list \<Rightarrow> (task \<times> error) list \<Rightarrow> machine
     \<Rightarrow> (task \<times> error) list \<times> machine" where
  "early_turns e hb [] failed m = (failed, m)"
| "early_turns e hb (t # ts) failed m =
     (if t \<in> fst ` set failed then early_turns e hb ts failed m
      else case early_turn e hb t m of
          None \<Rightarrow> early_turns e hb ts failed m
        | Some (Inl err, m1) \<Rightarrow> early_turns e hb ts (failed @ [(t, err)]) m1
        | Some (Inr _, m1) \<Rightarrow> early_turns e hb ts failed m1)"

text \<open>Lines 119 to 126: the session, the dial, the stamp and the ping task.\<close>

definition connect_open ::
  "env \<Rightarrow> ws_message list option \<Rightarrow> machine \<Rightarrow> (error + unit) \<times> machine" where
  "connect_open e dial m =
     (let m1 = emit EvSessionOpen (m\<lparr>self := (self m)\<lparr>session := Some ClientSession\<rparr>\<rparr>);
          m2 = emit (EvWsConnect (url (self m1))) m1
      in case dial of
          None \<Rightarrow> (Inl ClientConnectionError, m2)
        | Some fs \<Rightarrow>
            (let (t, m3) = perf_counter e (m2\<lparr>self := (self m2)\<lparr>ws := Some fs\<rparr>\<rparr>);
                 m4 = m3\<lparr>self := (self m3)\<lparr>connected_at := Fin t\<rparr>\<rparr>
             in (Inr (), emit (EvCreateTask PingKeepAlive) m4)))"

text \<open>Lines 130 to 134: HELLO and its interval.\<close>

definition expect_hello :: "env \<Rightarrow> machine \<Rightarrow> (error + real) \<times> machine" where
  "expect_hello e =
     and_then (recv e) (\<lambda>pl.
     and_then (lift (py_getitem pl ''op'')) (\<lambda>op.
       if \<not> py_eq_int op 10 then
         lift (Inl (GatewayError [Lit ''Expected HELLO opcode 10 but received '',
                                  Interp_json op]))
       else
         and_then (lift (py_getitem pl ''d'')) (\<lambda>d.
         and_then (lift (py_getitem d ''heartbeat_interval'')) (\<lambda>ms.
         lift (py_truediv_1000 ms)))))"

text \<open>
  \<^verbatim>\<open>send\<close>, lines 293 to 302, with the turns that the other tasks take while
  \<^verbatim>\<open>await self.ratelimiter.acquire()\<close> is pending. The text is made before the await and
  \<^verbatim>\<open>self.ws\<close> is read after it.
\<close>

definition send_suspended ::
  "env \<Rightarrow> real \<Rightarrow> task list \<Rightarrow> (task \<times> error) list \<Rightarrow> json \<Rightarrow> machine
     \<Rightarrow> (error + unit) \<times> (task \<times> error) list \<times> machine" where
  "send_suspended e hb_interval turns failed payload m =
     (let payload_str = json_serialize e payload in
      if length payload_str > 4096 then
        (Inl (GatewayError
           [Lit ''Tried to send a payload greater than 4096 bytes in size (was actually '',
            Interp_nat (length payload_str)]), failed, m)
      else
        case early_turns e (Some hb_interval) turns failed (emit EvAcquire m) of
          (failed1, m1) \<Rightarrow>
            (case ws (self m1) of
               None \<Rightarrow> (Inl AttributeError, failed1, m1)
             | Some _ \<Rightarrow> (Inr (), failed1, emit (EvSendStr payload_str) m1)))"

text \<open>
  Lines 119 to 144, up to the gather: the result is the heartbeat interval, with the
  exceptions of the tasks that have raised so far.
\<close>

definition connect_until_gather ::
  "env \<Rightarrow> ws_message list option \<Rightarrow> task list \<Rightarrow> task list \<Rightarrow> machine
     \<Rightarrow> (error + real) \<times> (task \<times> error) list \<times> machine" where
  "connect_until_gather e dial at_hello at_acquire m =
     (case connect_open e dial m of
        (Inl err, m1) \<Rightarrow> (Inl err, [], m1)
      | (Inr _, m1) \<Rightarrow>
          (case early_turns e None at_hello [] m1 of
             (failed1, m2) \<Rightarrow>
               (case expect_hello e m2 of
                  (Inl err, m3) \<Rightarrow> (Inl err, failed1, m3)
                | (Inr hb_interval, m3) \<Rightarrow>
                    (let m4 = emit (EvCreateTask (HeartbeatKeepAlive hb_interval)) m3;
                         payload = (if session_id (self m4) = None
                                    then identify_payload e (self m4)
                                    else resume_payload (self m4))
                     in case send_suspended e hb_interval at_acquire failed1 payload m4 of
                          (Inl err, failed2, m5) \<Rightarrow> (Inl err, failed2, m5)
                        | (Inr _, failed2, m5) \<Rightarrow> (Inr hb_interval, failed2, m5)))))"

subsection \<open>Repeated calls\<close>

text \<open>\<^verbatim>\<open>close()\<close> awaited \<open>n\<close> times in a row; an exception would stop the sequence.\<close>

fun close_times :: "env \<Rightarrow> nat \<Rightarrow> machine \<Rightarrow> (error + unit) \<times> machine" where
  "close_times e 0 m = (Inr (), m)"
| "close_times e (Suc n) m = and_then (close e) (\<lambda>_. close_times e n) m"

subsection \<open>A concrete environment\<close>

text \<open>
  An environment to run the client in: a printer in the format of \<^verbatim>\<open>json.dumps\<close> (floats
  are not printed), a decoder that reads back the frames below as the printer prints
  them, an inflater that knows one zlib stream and rejects everything else, a clock that
  reads 0, 1, 2, ..., the close codes of the gateway documentation, and a socket and a
  session whose closes return.
\<close>

fun decimal :: "nat \<Rightarrow> string" where
  "decimal n =
     (if n < 10 then [''0123456789'' ! n]
      else decimal (n div 10) @ [''0123456789'' ! (n mod 10)])"

declare decimal.simps [simp del]

fun join :: "string \<Rightarrow> string list \<Rightarrow> string" where
  "join sep [] = []"
| "join sep [x] = x"
| "join sep (x # y # ys) = x @ sep @ join sep (y # ys)"

fun json_dumps :: "json \<Rightarrow> string" where
  "json_dumps JNull = ''null''"
| "json_dumps (JBool b) = (if b then ''true'' else ''false'')"
| "json_dumps (JInt i) = (if i < 0 then ''-'' @ decimal (nat (- i)) else decimal (nat i))"
| "json_dumps (JFloat r) = ''<float>''"
| "json_dumps (JStr s) = [CHR 0x22] @ s @ [CHR 0x22]"
| "json_dumps (JList xs) = ''['' @ join '', '' (map json_dumps xs) @ '']''"
| "json_dumps (JObj kvs) =
     ''{'' @ join '', '' (map (\<lambda>kv. [CHR 0x22] @ fst kv @ [CHR 0x22] @ '': '' @ json_dumps (snd kv)) kvs)
       @ ''}''"

definition hello :: json where
  "hello = JObj [(''op'', JInt 10), (''d'', JObj [(''heartbeat_interval'', JInt 41250)])]"

definition message_create :: json where
  "message_create =
     JObj [(''op'', JInt 0), (''s'', JInt 43), (''t'', JStr ''MESSAGE_CREATE''), (''d'', JObj [])]"

definition heartbeat_ack :: json where
  "heartbeat_ack = JObj [(''op'', JInt 11), (''d'', JNull)]"

definition reconnect :: json where
  "reconnect = JObj [(''op'', JInt 7), (''d'', JNull)]"

text \<open>
  The ASCII bytes of the text \<^verbatim>\<open>{"op": 10, "d": {"heartbeat_interval": 41250}}\<close>, that is of
  \<open>json_dumps hello\<close>, and the zlib stream that a fresh \<^verbatim>\<open>zlib.compressobj()\<close> makes of them
  with a sync flush: the first compressed message of a connection.
\<close>

definition hello_bytes :: bytes where
  "hello_bytes =
     [0x7B, 0x22, 0x6F, 0x70, 0x22, 0x3A, 0x20, 0x31, 0x30, 0x2C, 0x20, 0x22, 0x64, 0x22, 0x3A,
      0x20, 0x7B, 0x22, 0x68, 0x65, 0x61, 0x72, 0x74, 0x62, 0x65, 0x61, 0x74, 0x5F, 0x69, 0x6E,
      0x74, 0x65, 0x72, 0x76, 0x61, 0x6C, 0x22, 0x3A, 0x20, 0x34, 0x31, 0x32, 0x35, 0x30, 0x7D,
      0x7D]"

definition hello_stream_head :: bytes where
  "hello_stream_head =
     [0x78, 0x9C, 0xAA, 0x56, 0xCA, 0x2F, 0x50, 0xB2, 0x52, 0x30, 0x34, 0xD0, 0x51, 0x50, 0x4A,
      0x01, 0x32, 0xAA, 0x95, 0x32, 0x52, 0x13, 0x8B, 0x4A, 0x92, 0x52, 0x13, 0x4B, 0xE2, 0x33]"

definition hello_stream_tail :: bytes where
  "hello_stream_tail =
     [0xF3, 0x4A, 0x52, 0x8B, 0xCA, 0x12, 0x73, 0x80, 0xC2, 0x26, 0x86, 0x46, 0xA6, 0x06, 0xB5,
      0xB5, 0x00, 0x00, 0x00, 0x00, 0xFF, 0xFF]"

definition demo_loads :: "pydata \<Rightarrow> json option" where
  "demo_loads data =
     (if data = PyStr (json_dumps hello) then Some hello
      else if data = PyStr (json_dumps message_create) then Some message_create
      else if data = PyStr (json_dumps heartbeat_ack) then Some heartbeat_ack
      else if data = PyStr (json_dumps reconnect) then Some reconnect
      else if data = PyBytes hello_bytes then Some hello
      else None)"

definition demo_env :: env where
  "demo_env =
     \<lparr> json_serialize = json_dumps,
       json_deserialize = demo_loads,
       zlib_decompress =
         (\<lambda>fed chunk. if fed = [] \<and> chunk = hello_stream_head @ hello_stream_tail
                       then Some hello_bytes else None),
       perf_clock = real,
       platform_system = ''Linux'',
       platform_release = ''5.4.0'',
       python_implementation = ''CPython'',
       python_revision = '''',
       python_version = ''3.8.1'',
       GatewayCloseCode =
         \<lparr> AUTHENTICATION_FAILED = 4004, SESSION_TIMEOUT = 4009,
           INVALID_SEQ = 4007, SHARDING_REQUIRED = 4011 \<rparr>,
       ws_close = (\<lambda>tr. None),
       session_close = (\<lambda>tr. None) \<rparr>"

text \<open>
  The client built with \<^verbatim>\<open>GatewayClient(token="T", url=...)\<close>, and a machine that has
  done nothing yet.
\<close>

definition demo_client :: gateway_client where
  "demo_client = projr (default_client ''T'' ''wss://gateway.discord.gg/'')"

definition fresh_machine :: "gateway_client \<Rightarrow> machine" where
  "fresh_machine c = \<lparr> self = c, trace = [], tick = 0 \<rparr>"

subsection \<open>Readings of a trace\<close>

text \<open>
  The texts written to the socket, in order; the calls that tear a connection down; and
  what a receive leaves as it was, which is all that the handshake relies on.
\<close>

fun sent_texts :: "event list \<Rightarrow> string list" where
  "sent_texts [] = []"
| "sent_texts (EvSendStr s # tr) = s # sent_texts tr"
| "sent_texts (_ # tr) = sent_texts tr"

fun is_teardown :: "event \<Rightarrow> bool" where
  "is_teardown EvWsClose = True"
| "is_teardown EvSessionClose = True"
| "is_teardown EvLatchSet = True"
| "is_teardown _ = False"

definition preserved :: "machine \<Rightarrow> machine \<Rightarrow> bool" where
  "preserved m m1 =
     (closed_event (self m1) = closed_event (self m)
      \<and> session_id (self m1) = session_id (self m)
      \<and> seq (self m1) = seq (self m)
      \<and> token (self m1) = token (self m)
      \<and> large_threshold (self m1) = large_threshold (self m)
      \<and> guild_subscriptions (self m1) = guild_subscriptions (self m)
      \<and> shard_id (self m1) = shard_id (self m)
      \<and> shard_count (self m1) = shard_count (self m)
      \<and> presence (self m1) = presence (self m)
      \<and> last_heartbeat_sent (self m1) = last_heartbeat_sent (self m)
      \<and> last_heartbeat_ack_received (self m1) = last_heartbeat_ack_received (self m)
      \<and> sent_texts (trace m1) = sent_texts (trace m)
      \<and> filter is_teardown (trace m1) = filter is_teardown (trace m))"

text \<open>What no part of \<^verbatim>\<open>connect\<close> before its \<^verbatim>\<open>finally\<close> block changes.\<close>

definition not_torn_down :: "machine \<Rightarrow> machine \<Rightarrow> bool" where
  "not_torn_down m m1 =
     (closed_event (self m1) = closed_event (self m)
      \<and> filter is_teardown (trace m1) = filter is_teardown (trace m))"



text \<open>
  Whether the socket, and the session, that the client holds has been closed: the last
  of its connects and closes in the trace is a close.
\<close>

fun socket_closed_from :: "bool \<Rightarrow> event list \<Rightarrow> bool" where
  "socket_closed_from b [] = b"
| "socket_closed_from b (EvWsConnect u # tr) = socket_closed_from False tr"
| "socket_closed_from b (EvWsClose # tr) = socket_closed_from True tr"
| "socket_closed_from b (_ # tr) = socket_closed_from b tr"

definition socket_closed :: "event list \<Rightarrow> bool" where
  "socket_closed tr = socket_closed_from False tr"

fun session_closed_from :: "bool \<Rightarrow> event list \<Rightarrow> bool" where
  "session_closed_from b [] = b"
| "session_closed_from b (EvSessionOpen # tr) = session_closed_from False tr"
| "session_closed_from b (EvSessionClose # tr) = session_closed_from True tr"
| "session_closed_from b (_ # tr) = session_closed_from b tr"

definition session_closed :: "event list \<Rightarrow> bool" where
  "session_closed tr = session_closed_from False tr"

subsection \<open>A socket whose close is interrupted\<close>

text \<open>
  The concrete environment, except that the task awaiting \<^verbatim>\<open>self.ws.close()\<close> is cancelled
  while it waits: the \<^verbatim>\<open>asyncio.shield\<close> lets the close go on and raises CancelledError in
  the caller. Closing a socket that is closed already returns at once. With it, a client
  that is connected and one whose socket and session have been closed already.
\<close>

definition cancelling_env :: env where
  "cancelling_env =
     demo_env\<lparr>ws_close := (\<lambda>tr. if socket_closed tr then None else Some CancelledError)\<rparr>"

definition connected_machine :: machine where
  "connected_machine =
     \<lparr> self = demo_client\<lparr>session := Some ClientSession, ws := Some []\<rparr>,
       trace = [EvSessionOpen, EvWsConnect (url demo_client)],
       tick = 0 \<rparr>"

definition closed_machine :: machine where
  "closed_machine = emit EvSessionClose (emit EvWsClose connected_machine)"

section \<open>Properties\<close>

subsection \<open>close\<close>

lemma socket_closed_from_append:
  "socket_closed_from b (tr @ tr') = socket_closed_from (socket_closed_from b tr) tr'"
  by (induction b tr rule: socket_closed_from.induct) simp_all

lemma session_closed_from_append:
  "session_closed_from b (tr @ tr') = session_closed_from (session_closed_from b tr) tr'"
  by (induction b tr rule: session_closed_from.induct) simp_all

lemmas closed_simps =
  socket_closed_def session_closed_def socket_closed_from_append session_closed_from_append

lemmas close_defs =
  close_def and_then_def suppress_def ws_close_call_def session_close_call_def emit_def

lemma close_returned:
  assumes "fst (close e m) = Inr ()"
  shows "self (snd (close e m)) = (self m)\<lparr>closed_event := True\<rparr>"
    and "count_list (trace (snd (close e m))) EvLatchSet =
           count_list (trace m) EvLatchSet + (if closed_event (self m) then 0 else 1)"
    and "ws (self m) = None \<or> socket_closed (trace (snd (close e m)))"
    and "session (self m) = None \<or> session_closed (trace (snd (close e m)))"
  using assms
  by (auto simp: close_defs closed_simps split: option.splits if_splits)

lemma close_on_closed:
  assumes "\<And>tr. socket_closed tr \<Longrightarrow> ws_close e tr = None"
    and "\<And>tr. session_closed tr \<Longrightarrow> session_close e tr = None"
    and "ws (self m) = None \<or> socket_closed (trace m)"
    and "session (self m) = None \<or> session_closed (trace m)"
  shows "fst (close e m) = Inr ()"
  using assms
  by (auto simp: close_defs closed_simps split: option.splits if_splits)


lemma close_times_Suc:
  "fst (close e m) = Inr () \<Longrightarrow> close_times e (Suc n) m = close_times e n (snd (close e m))"
  by (cases "close e m") (simp add: and_then_def)

lemma close_raised:
  assumes "fst (close e m) = Inl err"
  shows "err \<noteq> AttributeError"
    and "closed_event (self (snd (close e m))) = closed_event (self m)"
    and "count_list (trace (snd (close e m))) EvLatchSet = count_list (trace m) EvLatchSet"
  using assms
  by (auto simp: close_defs split: option.splits if_splits)

lemma close_ws_raises:
  "ws (self m) \<noteq> None \<Longrightarrow> ws_close e (trace m) = Some err \<Longrightarrow> err \<noteq> AttributeError \<Longrightarrow>
   close e m = (Inl err, emit EvWsClose m)"
  by (auto simp: close_def and_then_def suppress_def ws_close_call_def)

lemma close_times_returned:
  assumes "\<And>tr. socket_closed tr \<Longrightarrow> ws_close e tr = None"
    and "\<And>tr. session_closed tr \<Longrightarrow> session_close e tr = None"
    and "fst (close e m) = Inr ()"
  shows "fst (close_times e (Suc n) m) = Inr ()
     \<and> self (snd (close_times e (Suc n) m)) = self (snd (close e m))
     \<and> closed_event (self (snd (close_times e (Suc n) m)))
     \<and> count_list (trace (snd (close_times e (Suc n) m))) EvLatchSet =
         count_list (trace m) EvLatchSet + (if closed_event (self m) then 0 else 1)"
  using assms(3)
proof (induction n arbitrary: m)
  case 0
  have once: "close_times e (Suc 0) m = (Inr (), snd (close e m))"
    using close_times_Suc [OF 0, of 0] by (simp only: close_times.simps(1))
  show ?case
    unfolding once using close_returned [OF 0] by simp
next
  case (Suc n)
  let ?m1 = "snd (close e m)"
  note r = close_returned [OF Suc.prems]
  have s: "self ?m1 = (self m)\<lparr>closed_event := True\<rparr>"
    by (rule r(1))
  have "ws (self ?m1) = None \<or> socket_closed (trace ?m1)"
    and "session (self ?m1) = None \<or> session_closed (trace ?m1)"
    using r(3,4) by (simp_all add: s)
  with assms(1,2) have again: "fst (close e ?m1) = Inr ()"
    by (rule close_on_closed)
  from Suc.IH [OF again]
  have ih1: "fst (close_times e (Suc n) ?m1) = Inr ()"
    and ih2: "self (snd (close_times e (Suc n) ?m1)) = self (snd (close e ?m1))"
    and ih3: "closed_event (self (snd (close_times e (Suc n) ?m1)))"
    and ih4: "count_list (trace (snd (close_times e (Suc n) ?m1))) EvLatchSet =
       count_list (trace ?m1) EvLatchSet + (if closed_event (self ?m1) then 0 else 1)"
    by blast+
  have step: "close_times e (Suc (Suc n)) m = close_times e (Suc n) ?m1"
    using Suc.prems by (rule close_times_Suc)
  have twice: "self (snd (close e ?m1)) = self ?m1"
    using close_returned(1) [OF again] by (simp add: s)
  have latch: "closed_event (self ?m1)"
    by (simp add: s)
  show ?case
    using ih1 ih2 ih3 ih4 r(2) by (simp only: step twice latch if_True add_0_right simp_thms)
qed

text \<open>
  C9, as the code has it. Take a socket and a session whose \<^verbatim>\<open>close()\<close> returns when they
  are closed already. On a client whose socket and session were never opened or are
  closed already, \<^verbatim>\<open>close()\<close> raises nothing. Whenever a call of \<^verbatim>\<open>close()\<close> has returned,
  every further call returns as well and leaves the client as the first call left it,
  and over all these calls the latch is set exactly once if it was not set before and
  not again if it was. An exception other than AttributeError that
  \<^verbatim>\<open>self.ws.close()\<close> raises leaves \<^verbatim>\<open>close()\<close> at once; whenever \<^verbatim>\<open>close()\<close> raises, the
  exception is not an AttributeError and the latch is as it was.
\<close>

theorem close_idempotent:
  assumes "\<And>tr. socket_closed tr \<Longrightarrow> ws_close e tr = None"
    and "\<And>tr. session_closed tr \<Longrightarrow> session_close e tr = None"
  shows
    "((ws (self m) = None \<or> socket_closed (trace m))
        \<and> (session (self m) = None \<or> session_closed (trace m)) \<longrightarrow>
      fst (close e m) = Inr ())
     \<and> (fst (close e m) = Inr () \<longrightarrow>
          fst (close_times e (Suc n) m) = Inr ()
          \<and> self (snd (close_times e (Suc n) m)) = self (snd (close e m))
          \<and> closed_event (self (snd (close_times e (Suc n) m)))
          \<and> count_list (trace (snd (close_times e (Suc n) m))) EvLatchSet =
              count_list (trace m) EvLatchSet + (if closed_event (self m) then 0 else 1))
     \<and> (\<forall>err. ws (self m) \<noteq> None \<and> ws_close e (trace m) = Some err \<and> err \<noteq> AttributeError \<longrightarrow>
          close e m = (Inl err, emit EvWsClose m))
     \<and> (\<forall>err. fst (close e m) = Inl err \<longrightarrow>
          err \<noteq> AttributeError
          \<and> closed_event (self (snd (close e m))) = closed_event (self m)
          \<and> count_list (trace (snd (close e m))) EvLatchSet = count_list (trace m) EvLatchSet)"
  using close_on_closed [OF assms, of m] close_times_returned [OF assms, of m n]
    close_ws_raises [of m e] close_raised [of e m]
  by blast


lemma demo_client_fields:
  "\<not> closed_event demo_client" "ws demo_client = None" "session demo_client = None"
  by (simp_all add: demo_client_def default_client_def init_client_def Let_def)

lemma closed_machine_fields:
  "socket_closed (trace closed_machine)" "session_closed (trace closed_machine)"
  "\<not> closed_event (self closed_machine)"
  "count_list (trace closed_machine) EvLatchSet = 0"
  by (simp_all add: closed_machine_def connected_machine_def emit_def socket_closed_def
        session_closed_def demo_client_fields)

lemma connected_machine_fields:
  "ws (self connected_machine) \<noteq> None"
  "ws_close cancelling_env (trace connected_machine) = Some CancelledError"
  by (simp_all add: connected_machine_def cancelling_env_def socket_closed_def)

theorem close_idempotent_witness:
  "fst (close cancelling_env closed_machine) = Inr ()
   \<and> fst (close_times cancelling_env (Suc 2) closed_machine) = Inr ()
   \<and> count_list (trace (snd (close_times cancelling_env (Suc 2) closed_machine))) EvLatchSet = 1
   \<and> fst (close_times demo_env (Suc 2) (fresh_machine demo_client)) = Inr ()
   \<and> closed_event (self (snd (close_times demo_env (Suc 2) (fresh_machine demo_client))))
   \<and> close cancelling_env connected_machine = (Inl CancelledError, emit EvWsClose connected_machine)"
proof -
  have c1: "\<And>tr. socket_closed tr \<Longrightarrow> ws_close cancelling_env tr = None"
    and c2: "\<And>tr. session_closed tr \<Longrightarrow> session_close cancelling_env tr = None"
    and d1: "\<And>tr. socket_closed tr \<Longrightarrow> ws_close demo_env tr = None"
    and d2: "\<And>tr. session_closed tr \<Longrightarrow> session_close demo_env tr = None"
    by (simp_all add: cancelling_env_def demo_env_def)
  have fresh: "ws (self (fresh_machine demo_client)) = None"
    "session (self (fresh_machine demo_client)) = None"
    by (simp_all add: fresh_machine_def demo_client_fields)
  have a: "fst (close cancelling_env closed_machine) = Inr ()"
    using close_idempotent [OF c1 c2, of closed_machine 2] closed_machine_fields(1,2) by blast
  have b: "fst (close_times cancelling_env (Suc 2) closed_machine) = Inr ()"
    and c: "count_list (trace (snd (close_times cancelling_env (Suc 2) closed_machine))) EvLatchSet =
        count_list (trace closed_machine) EvLatchSet
          + (if closed_event (self closed_machine) then 0 else 1)"
    using close_idempotent [OF c1 c2, of closed_machine 2] a by blast+
  have d: "fst (close demo_env (fresh_machine demo_client)) = Inr ()"
    using close_idempotent [OF d1 d2, of "fresh_machine demo_client" 2] fresh by blast
  have f: "fst (close_times demo_env (Suc 2) (fresh_machine demo_client)) = Inr ()"
    and g: "closed_event (self (snd (close_times demo_env (Suc 2) (fresh_machine demo_client))))"
    using close_idempotent [OF d1 d2, of "fresh_machine demo_client" 2] d by blast+
  have h: "close cancelling_env connected_machine
      = (Inl CancelledError, emit EvWsClose connected_machine)"
    using close_idempotent [OF c1 c2, of connected_machine 0] connected_machine_fields by blast
  have c': "count_list (trace (snd (close_times cancelling_env (Suc 2) closed_machine))) EvLatchSet = 1"
    by (simp only: c closed_machine_fields(3,4) if_False add_0)
  from a b c' f g h show ?thesis by blast
qed

text \<open>
  The first sentence of C9 does not hold of a socket whose close raises. A connected client
  is closed while the await of \<^verbatim>\<open>self.ws.close()\<close> is cancelled: \<^verbatim>\<open>close()\<close> raises
  CancelledError, the session is not closed and the latch is not set.
\<close>

theorem close_raises_counterexample:
  "fst (close cancelling_env connected_machine) = Inl CancelledError
   \<and> \<not> closed_event (self (snd (close cancelling_env connected_machine)))
   \<and> trace (snd (close cancelling_env connected_machine)) = trace connected_machine @ [EvWsClose]"
  by (simp add: close_defs connected_machine_def cancelling_env_def socket_closed_def
        demo_client_fields)

subsection \<open>The heartbeat cycle\<close>

lemma send_not_zombied: "fst (send e p m) \<noteq> Inl GatewayZombiedError"
  by (simp add: send_def Let_def split: option.split)

lemma send_fits:
  "length (json_serialize e p) \<le> 4096 \<Longrightarrow> ws (self m) \<noteq> None \<Longrightarrow>
   send e p m = (Inr (), m\<lparr>trace := trace m @ [EvAcquire, EvSendStr (json_serialize e p)]\<rparr>)"
  by (auto simp: send_def Let_def emit_def split: option.split)

lemma not_py_lt: "(\<not> py_lt a s) = (py_ge a s \<or> isnan a \<or> isnan s)"
  by (cases a; cases s) auto

text \<open>
  C1, as the code has it. In a turn of the heartbeat loop entered with the latch unset:
  if \<^verbatim>\<open>last_heartbeat_ack_received < last_heartbeat_sent\<close> holds, the turn raises
  \<open>GatewayZombiedError\<close> and the machine is untouched, so nothing was sent. If the last
  acknowledgement is not older than the last heartbeat (ack \<open>\<ge>\<close> sent), or if no heartbeat
  has been sent yet (\<^verbatim>\<open>last_heartbeat_sent\<close> is NaN), no zombie error is raised: the turn
  calls \<^verbatim>\<open>send\<close> with opcode 1 and the current \<^verbatim>\<open>seq\<close>, an exception of that send is the
  turn's, and after a send that returned \<^verbatim>\<open>last_heartbeat_sent\<close> is stamped with the next
  clock reading and the task waits for the interval. With a socket and a text of at most
  4096 characters the calls are the acquire, the socket send and the wait. Nothing is
  said here of a turn that finds a heartbeat sent and no acknowledgement ever received.
\<close>

theorem heartbeat_cycle_zombied:
  assumes "\<not> closed_event (self m)"
  shows
    "(let ack = last_heartbeat_ack_received (self m);
          sent = last_heartbeat_sent (self m);
          payload = JObj [(''op'', JInt 1), (''d'', seq (self m))];
          cycle = heartbeat_cycle e hb m
      in (py_lt ack sent \<longrightarrow> cycle = (Inl GatewayZombiedError, m))
       \<and> (py_ge ack sent \<or> isnan sent \<longrightarrow>
            fst cycle \<noteq> Inl GatewayZombiedError
            \<and> (\<forall>err m1. send e payload m = (Inl err, m1) \<longrightarrow> cycle = (Inl err, m1))
            \<and> (\<forall>m1. send e payload m = (Inr (), m1) \<longrightarrow>
                  cycle = (Inr Again,
                           m1\<lparr>self := (self m1)\<lparr>last_heartbeat_sent := Fin (perf_clock e (tick m1))\<rparr>,
                              trace := trace m1 @ [EvWaitFor hb],
                              tick := Suc (tick m1)\<rparr>))
            \<and> (ws (self m) \<noteq> None \<and> length (json_serialize e payload) \<le> 4096 \<longrightarrow>
                  fst cycle = Inr Again
                  \<and> trace (snd cycle) =
                      trace m @ [EvAcquire, EvSendStr (json_serialize e payload), EvWaitFor hb]
                  \<and> last_heartbeat_sent (self (snd cycle)) = Fin (perf_clock e (tick m)))))"
proof -
  let ?ack = "last_heartbeat_ack_received (self m)"
  let ?sent = "last_heartbeat_sent (self m)"
  let ?p = "JObj [(''op'', JInt 1), (''d'', seq (self m))]"
  let ?c = "heartbeat_cycle e hb m"
  have z: "py_lt ?ack ?sent \<longrightarrow> ?c = (Inl GatewayZombiedError, m)"
    using assms by (simp add: heartbeat_cycle_def)
  have unf: "\<not> py_lt ?ack ?sent \<Longrightarrow> ?c =
      (case send e ?p m of
          (Inl err, m1) \<Rightarrow> (Inl err, m1)
        | (Inr _, m1) \<Rightarrow>
            (Inr Again,
             m1\<lparr>self := (self m1)\<lparr>last_heartbeat_sent := Fin (perf_clock e (tick m1))\<rparr>,
                trace := trace m1 @ [EvWaitFor hb],
                tick := Suc (tick m1)\<rparr>))"
    using assms
    by (simp add: heartbeat_cycle_def perf_counter_def emit_def Let_def
          split: prod.split sum.split)
  have nz: "\<not> py_lt ?ack ?sent \<Longrightarrow> fst ?c \<noteq> Inl GatewayZombiedError"
    using send_not_zombied [of e ?p m]
    by (cases "send e ?p m") (auto simp: unf split: sum.split)
  have raise: "\<not> py_lt ?ack ?sent \<Longrightarrow> send e ?p m = (Inl err, m1) \<Longrightarrow> ?c = (Inl err, m1)" for err m1
    by (simp add: unf)
  have ok: "\<not> py_lt ?ack ?sent \<Longrightarrow> send e ?p m = (Inr (), m1) \<Longrightarrow>
       ?c = (Inr Again,
             m1\<lparr>self := (self m1)\<lparr>last_heartbeat_sent := Fin (perf_clock e (tick m1))\<rparr>,
                trace := trace m1 @ [EvWaitFor hb],
                tick := Suc (tick m1)\<rparr>)" for m1
    by (simp add: unf)
  have fits: "\<not> py_lt ?ack ?sent \<Longrightarrow> ws (self m) \<noteq> None \<Longrightarrow>
        length (json_serialize e ?p) \<le> 4096 \<Longrightarrow>
        fst ?c = Inr Again
        \<and> trace (snd ?c) = trace m @ [EvAcquire, EvSendStr (json_serialize e ?p), EvWaitFor hb]
        \<and> last_heartbeat_sent (self (snd ?c)) = Fin (perf_clock e (tick m))"
    by (simp add: unf send_fits)
  have by_design: "\<not> py_lt ?ack ?sent" if "py_ge ?ack ?sent \<or> isnan ?sent"
    using that not_py_lt [of ?ack ?sent] by blast
  show ?thesis
    unfolding Let_def using z nz raise ok fits by_design by blast
qed


text \<open>The definitions that evaluate the concrete environment and client.\<close>

lemmas demo_simps =
  demo_client_def default_client_def init_client_def fresh_machine_def demo_env_def

theorem heartbeat_cycle_zombied_witness:
  "heartbeat_cycle demo_env (165/4)
      (fresh_machine (demo_client\<lparr>ws := Some [], last_heartbeat_sent := Fin 2,
                                   last_heartbeat_ack_received := Fin 1\<rparr>))
     = (Inl GatewayZombiedError,
        fresh_machine (demo_client\<lparr>ws := Some [], last_heartbeat_sent := Fin 2,
                                     last_heartbeat_ack_received := Fin 1\<rparr>))
   \<and> fst (heartbeat_cycle demo_env (165/4)
        (fresh_machine (demo_client\<lparr>ws := Some [], seq := JInt 43, last_heartbeat_sent := Fin 1,
                                     last_heartbeat_ack_received := Fin 2\<rparr>))) = Inr Again
   \<and> trace (snd (heartbeat_cycle demo_env (165/4)
        (fresh_machine (demo_client\<lparr>ws := Some [], seq := JInt 43, last_heartbeat_sent := Fin 1,
                                     last_heartbeat_ack_received := Fin 2\<rparr>))))
       = [EvAcquire, EvSendStr (json_dumps (JObj [(''op'', JInt 1), (''d'', JInt 43)])),
          EvWaitFor (165/4)]
   \<and> fst (heartbeat_cycle demo_env (165/4)
        (fresh_machine (demo_client\<lparr>ws := Some [], last_heartbeat_ack_received := Fin 2\<rparr>)))
       = Inr Again"
  using heartbeat_cycle_zombied [of "fresh_machine (demo_client\<lparr>ws := Some [],
            last_heartbeat_ack_received := Fin 2\<rparr>)" demo_env "165/4"]
        heartbeat_cycle_zombied [of "fresh_machine (demo_client\<lparr>ws := Some [],
            last_heartbeat_sent := Fin 2, last_heartbeat_ack_received := Fin 1\<rparr>)" demo_env "165/4"]
        heartbeat_cycle_zombied [of "fresh_machine (demo_client\<lparr>ws := Some [], seq := JInt 43,
            last_heartbeat_sent := Fin 1, last_heartbeat_ack_received := Fin 2\<rparr>)" demo_env "165/4"]
  by (simp add: demo_simps Let_def decimal.simps)

text \<open>
  C1 as stated fails in the first turn of a connection: no heartbeat has been sent, both
  stamps are NaN and ack \<open>\<ge>\<close> sent is false, and yet the turn sends the heartbeat instead
  of raising.
\<close>

theorem heartbeat_cycle_nan_counterexample:
  "\<not> py_ge (last_heartbeat_ack_received (self (fresh_machine (demo_client\<lparr>ws := Some []\<rparr>))))
            (last_heartbeat_sent (self (fresh_machine (demo_client\<lparr>ws := Some []\<rparr>))))
   \<and> \<not> closed_event (self (fresh_machine (demo_client\<lparr>ws := Some []\<rparr>)))
   \<and> fst (heartbeat_cycle demo_env (165/4) (fresh_machine (demo_client\<lparr>ws := Some []\<rparr>)))
       = Inr Again
   \<and> trace (snd (heartbeat_cycle demo_env (165/4) (fresh_machine (demo_client\<lparr>ws := Some []\<rparr>))))
       = [EvAcquire, EvSendStr (json_dumps (JObj [(''op'', JInt 1), (''d'', JNull)])),
          EvWaitFor (165/4)]"
  by (simp add: demo_simps heartbeat_cycle_def send_def emit_def perf_counter_def Let_def
        decimal.simps)

subsection \<open>send\<close>

lemma send_too_large:
  "length (json_serialize e p) > 4096 \<Longrightarrow>
   send e p m =
     (Inl (GatewayError
        [Lit ''Tried to send a payload greater than 4096 bytes in size (was actually '',
         Interp_nat (length (json_serialize e p))]), m)"
  by (simp add: send_def Let_def)

lemma send_no_socket:
  "length (json_serialize e p) \<le> 4096 \<Longrightarrow> ws (self m) = None \<Longrightarrow>
   send e p m = (Inl AttributeError, m\<lparr>trace := trace m @ [EvAcquire]\<rparr>)"
  by (simp add: send_def Let_def emit_def)

lemma recv_text:
  "ws (self m) = Some (Text data # fs) \<Longrightarrow>
   recv e m = (decode e (PyStr data), m\<lparr>self := (self m)\<lparr>ws := Some fs\<rparr>\<rparr>)"
  by (simp add: recv_def)

lemma demo_loads_hello: "demo_loads (PyStr (json_dumps hello)) = Some hello"
  by (simp add: demo_loads_def)

lemma demo_loads_message_create:
  "demo_loads (PyStr (json_dumps message_create)) = Some message_create"
  by (simp add: demo_loads_def hello_def message_create_def decimal.simps)

lemma demo_loads_heartbeat_ack:
  "demo_loads (PyStr (json_dumps heartbeat_ack)) = Some heartbeat_ack"
  by (simp add: demo_loads_def hello_def message_create_def heartbeat_ack_def decimal.simps)

lemma demo_loads_reconnect: "demo_loads (PyStr (json_dumps reconnect)) = Some reconnect"
  by (simp add: demo_loads_def hello_def message_create_def heartbeat_ack_def reconnect_def
        decimal.simps)

text \<open>
  C5, as the code has it. A payload whose serialized text is longer than 4096 characters
  makes \<^verbatim>\<open>send\<close> raise \<open>GatewayError\<close>, the general error of the module, with the length in
  its message; the machine is untouched, so there was neither an acquire nor a socket
  send. A text that fits is sent after the acquire when the client has a socket; without
  a socket the acquire is followed by an AttributeError.
\<close>

theorem send_payload_limit:
  "(length (json_serialize e payload) > 4096 \<longrightarrow>
      send e payload m =
        (Inl (GatewayError
           [Lit ''Tried to send a payload greater than 4096 bytes in size (was actually '',
            Interp_nat (length (json_serialize e payload))]), m))
   \<and> (length (json_serialize e payload) \<le> 4096 \<and> ws (self m) \<noteq> None \<longrightarrow>
        send e payload m =
          (Inr (), m\<lparr>trace := trace m @ [EvAcquire, EvSendStr (json_serialize e payload)]\<rparr>))
   \<and> (length (json_serialize e payload) \<le> 4096 \<and> ws (self m) = None \<longrightarrow>
        send e payload m = (Inl AttributeError, m\<lparr>trace := trace m @ [EvAcquire]\<rparr>))"
  using send_too_large [of e payload m] send_fits [of e payload m] send_no_socket [of e payload m]
  by blast

theorem send_payload_limit_witness:
  "send demo_env (JStr (replicate 5000 CHR ''a'')) (fresh_machine (demo_client\<lparr>ws := Some []\<rparr>))
     = (Inl (GatewayError
          [Lit ''Tried to send a payload greater than 4096 bytes in size (was actually '',
           Interp_nat 5002]), fresh_machine (demo_client\<lparr>ws := Some []\<rparr>))
   \<and> send demo_env (JObj [(''op'', JInt 11)]) (fresh_machine (demo_client\<lparr>ws := Some []\<rparr>))
     = (Inr (), (fresh_machine (demo_client\<lparr>ws := Some []\<rparr>))
                  \<lparr>trace := [EvAcquire, EvSendStr (json_dumps (JObj [(''op'', JInt 11)]))]\<rparr>)
   \<and> send demo_env (JObj [(''op'', JInt 11)]) (fresh_machine demo_client)
     = (Inl AttributeError, (fresh_machine demo_client)\<lparr>trace := [EvAcquire]\<rparr>)"
  using send_payload_limit [of demo_env "JStr (replicate 5000 CHR ''a'')"
          "fresh_machine (demo_client\<lparr>ws := Some []\<rparr>)"]
        send_payload_limit [of demo_env "JObj [(''op'', JInt 11)]"
          "fresh_machine (demo_client\<lparr>ws := Some []\<rparr>)"]
        send_payload_limit [of demo_env "JObj [(''op'', JInt 11)]" "fresh_machine demo_client"]
  by (simp add: demo_simps decimal.simps)

text \<open>
  C5 as stated fails twice. The error for a payload that is too large is of the class
  that the handshake raises for a first frame that is not HELLO, not of a class of its
  own; and a payload that fits is not sent by a client that has no socket.
\<close>

theorem send_error_not_dedicated_counterexample:
  "fst (send demo_env (JStr (replicate 5000 CHR ''a''))
          (fresh_machine (demo_client\<lparr>ws := Some []\<rparr>)))
     = Inl (GatewayError
          [Lit ''Tried to send a payload greater than 4096 bytes in size (was actually '',
           Interp_nat 5002])
   \<and> fst (connect_handshake demo_env (Some [Text (json_dumps heartbeat_ack)])
            (fresh_machine demo_client))
     = Inl (GatewayError [Lit ''Expected HELLO opcode 10 but received '', Interp_json (JInt 11)])
   \<and> length (json_dumps (JObj [(''op'', JInt 11)])) \<le> 4096
   \<and> send demo_env (JObj [(''op'', JInt 11)]) (fresh_machine demo_client)
     = (Inl AttributeError, (fresh_machine demo_client)\<lparr>trace := [EvAcquire]\<rparr>)"
proof -
  have a: "fst (send demo_env (JStr (replicate 5000 CHR ''a''))
          (fresh_machine (demo_client\<lparr>ws := Some []\<rparr>)))
     = Inl (GatewayError
          [Lit ''Tried to send a payload greater than 4096 bytes in size (was actually '',
           Interp_nat 5002])"
    by (simp add: send_def demo_env_def)
  have b: "fst (connect_handshake demo_env (Some [Text (json_dumps heartbeat_ack)])
            (fresh_machine demo_client))
     = Inl (GatewayError [Lit ''Expected HELLO opcode 10 but received '', Interp_json (JInt 11)])"
    by (simp add: connect_handshake_def fresh_machine_def emit_def perf_counter_def Let_def
          and_then_def lift_def recv_text decode_def demo_env_def demo_loads_heartbeat_ack)
       (simp add: heartbeat_ack_def lift_def and_then_def)
  have c: "length (json_dumps (JObj [(''op'', JInt 11)])) \<le> 4096"
    by (simp add: decimal.simps)
  have d: "send demo_env (JObj [(''op'', JInt 11)]) (fresh_machine demo_client)
     = (Inl AttributeError, (fresh_machine demo_client)\<lparr>trace := [EvAcquire]\<rparr>)"
    by (simp add: send_def demo_simps emit_def decimal.simps)
  from a b c d show ?thesis by blast
qed

subsection \<open>recv: binary frames\<close>

lemma recv_binary_done:
  "endswith buffer sentinel \<Longrightarrow> recv_binary buffer fs = (Inr buffer, fs)"
  by (cases fs) simp_all

lemma recv_binary_more:
  "\<not> endswith buffer sentinel \<Longrightarrow>
   recv_binary buffer (Binary data # fs) = recv_binary (buffer @ data) fs"
  by simp

lemma recv_binary_append:
  "(\<And>j. j < length cs \<Longrightarrow> \<not> endswith (buffer @ concat (take j cs)) sentinel) \<Longrightarrow>
   recv_binary buffer (map Binary cs @ rest) = recv_binary (buffer @ concat cs) rest"
proof (induction cs arbitrary: buffer)
  case Nil
  show ?case by simp
next
  case (Cons c cs)
  have first: "\<not> endswith buffer sentinel"
    using Cons.prems [of 0] by simp
  have later: "\<not> endswith ((buffer @ c) @ concat (take j cs)) sentinel" if "j < length cs" for j
    using Cons.prems [of "Suc j"] that by simp
  have "recv_binary buffer (map Binary (c # cs) @ rest)
          = recv_binary (buffer @ c) (map Binary cs @ rest)"
    using first by (simp del: recv_binary.simps add: recv_binary_more)
  also have "\<dots> = recv_binary ((buffer @ c) @ concat cs) rest"
    using later by (rule Cons.IH)
  finally show ?case by simp
qed

lemma recv_binary_first_sentinel:
  assumes "k < length cs"
    and "endswith (concat (take (Suc k) cs)) sentinel"
    and "\<And>j. j < k \<Longrightarrow> \<not> endswith (concat (take (Suc j) cs)) sentinel"
  shows "recv_binary (hd cs) (map Binary (tl cs) @ rest)
           = (Inr (concat (take (Suc k) cs)), map Binary (drop (Suc k) cs) @ rest)"
proof -
  from assms(1) obtain c cs' where cs: "cs = c # cs'"
    by (cases cs) auto
  have k: "k \<le> length cs'"
    using assms(1) cs by simp
  have split: "map Binary cs' @ rest
                 = map Binary (take k cs') @ (map Binary (drop k cs') @ rest)"
    by (metis append.assoc append_take_drop_id map_append)
  have no: "\<not> endswith (c @ concat (take j (take k cs'))) sentinel" if "j < length (take k cs')" for j
  proof -
    from that have "j < k" by simp
    then have "take j (take k cs') = take j cs'" by (simp add: min_def)
    with assms(3) [OF \<open>j < k\<close>] cs show ?thesis by simp
  qed
  have "recv_binary c (map Binary cs' @ rest)
          = recv_binary c (map Binary (take k cs') @ (map Binary (drop k cs') @ rest))"
    using split by simp
  also have "\<dots> = recv_binary (c @ concat (take k cs')) (map Binary (drop k cs') @ rest)"
    using no by (rule recv_binary_append)
  also have "\<dots> = (Inr (c @ concat (take k cs')), map Binary (drop k cs') @ rest)"
    using assms(2) cs by (intro recv_binary_done) simp
  finally show ?thesis
    using cs by simp
qed


lemma recv_binary_no_sentinel:
  assumes "\<And>j. j < length (c # cs') \<Longrightarrow> \<not> endswith (concat (take (Suc j) (c # cs'))) sentinel"
  shows "recv_binary c (map Binary cs' @ rest) = recv_binary (concat (c # cs')) rest"
    and "\<not> endswith (concat (c # cs')) sentinel"
proof -
  have "\<not> endswith (c @ concat (take j cs')) sentinel" if "j < length cs'" for j
    using assms [of j] that by simp
  then have "recv_binary c (map Binary cs' @ rest) = recv_binary (c @ concat cs') rest"
    by (rule recv_binary_append)
  then show "recv_binary c (map Binary cs' @ rest) = recv_binary (concat (c # cs')) rest"
    by simp
  show "\<not> endswith (concat (c # cs')) sentinel"
    using assms [of "length cs'"] by simp
qed

lemma recv_on_binary:
  "ws (self m) = Some (Binary data # fs) \<Longrightarrow>
   recv e m =
     (case recv_binary data fs of
        (Inl err, rest) \<Rightarrow> (Inl err, m\<lparr>self := (self m)\<lparr>ws := Some rest\<rparr>\<rparr>)
      | (Inr buffer, rest) \<Rightarrow>
          (case zlib_decompress e (zlib (self m)) buffer of
             None \<Rightarrow> Inl ZlibError
           | Some pl \<Rightarrow> decode e (PyBytes pl),
           m\<lparr>self := (self m)\<lparr>zlib := zlib (self m) @ buffer, ws := Some rest\<rparr>\<rparr>))"
  by (simp add: recv_def Let_def split: prod.split sum.split option.split)

text \<open>
  C4. Binary frames read from the top of \<^verbatim>\<open>recv\<close> are appended to one buffer. At the first
  frame after which the buffer ends with 00 00 FF FF, the buffer is fed to the inflate
  context of the client, and what the inflater yields is handed, as bytes, to the injected
  decoder; what the decoder makes of it is returned: one payload (or the error of the
  inflater or of the decoder); the context has taken the buffer and the later frames stay
  on the socket. While the buffer does not end with the sentinel no payload is returned
  and the next frame is awaited: a further binary frame goes into the same buffer, and if
  none comes the receive times out.
\<close>

theorem recv_binary_frames:
  assumes "ws (self m) = Some (map Binary cs @ rest)" and "cs \<noteq> []"
  shows
    "(\<forall>k. k < length cs
          \<and> endswith (concat (take (Suc k) cs)) sentinel
          \<and> (\<forall>j. j < k \<longrightarrow> \<not> endswith (concat (take (Suc j) cs)) sentinel) \<longrightarrow>
        recv e m =
          (case zlib_decompress e (zlib (self m)) (concat (take (Suc k) cs)) of
             None \<Rightarrow> Inl ZlibError
           | Some pl \<Rightarrow>
               (case json_deserialize e (PyBytes pl) of
                  None \<Rightarrow> Inl JSONDecodeError
                | Some payload \<Rightarrow> Inr payload),
           m\<lparr>self := (self m)\<lparr>zlib := zlib (self m) @ concat (take (Suc k) cs),
                               ws := Some (map Binary (drop (Suc k) cs) @ rest)\<rparr>\<rparr>))
     \<and> ((\<forall>j. j < length cs \<longrightarrow> \<not> endswith (concat (take (Suc j) cs)) sentinel) \<longrightarrow>
          (rest = [] \<longrightarrow>
             recv e m = (Inl TimeoutError, m\<lparr>self := (self m)\<lparr>ws := Some []\<rparr>\<rparr>))
          \<and> (\<forall>data rest'. rest = Binary data # rest' \<longrightarrow>
                recv e m =
                  recv e (m\<lparr>self := (self m)\<lparr>ws := Some (Binary (concat cs @ data) # rest')\<rparr>\<rparr>)))"
proof -
  from assms(2) obtain c cs' where cs: "cs = c # cs'"
    by (cases cs) auto
  have frames: "ws (self m) = Some (Binary c # (map Binary cs' @ rest))"
    using assms(1) cs by simp
  have found: "recv e m =
          (case zlib_decompress e (zlib (self m)) (concat (take (Suc k) cs)) of
             None \<Rightarrow> Inl ZlibError
           | Some pl \<Rightarrow> decode e (PyBytes pl),
           m\<lparr>self := (self m)\<lparr>zlib := zlib (self m) @ concat (take (Suc k) cs),
                               ws := Some (map Binary (drop (Suc k) cs) @ rest)\<rparr>\<rparr>)"
    if "k < length cs" and "endswith (concat (take (Suc k) cs)) sentinel"
      and "\<And>j. j < k \<Longrightarrow> \<not> endswith (concat (take (Suc j) cs)) sentinel" for k
  proof -
    have "recv_binary (hd cs) (map Binary (tl cs) @ rest)
           = (Inr (concat (take (Suc k) cs)), map Binary (drop (Suc k) cs) @ rest)"
      using that by (rule recv_binary_first_sentinel)
    then have "recv_binary c (map Binary cs' @ rest)
           = (Inr (concat (take (Suc k) cs)), map Binary (drop (Suc k) cs) @ rest)"
      using cs by simp
    then show ?thesis
      by (simp only: recv_on_binary [OF frames] prod.case sum.case)
  qed
  have none: "recv_binary c (map Binary cs' @ rest) = recv_binary (concat cs) rest"
      "\<not> endswith (concat cs) sentinel"
    if "\<And>j. j < length cs \<Longrightarrow> \<not> endswith (concat (take (Suc j) cs)) sentinel"
    using recv_binary_no_sentinel [where c = c and cs' = cs'] that cs by blast+
  have timeout: "recv e m = (Inl TimeoutError, m\<lparr>self := (self m)\<lparr>ws := Some []\<rparr>\<rparr>)"
    if "\<And>j. j < length cs \<Longrightarrow> \<not> endswith (concat (take (Suc j) cs)) sentinel" and "rest = []"
  proof -
    have "recv_binary c (map Binary cs' @ rest) = (Inl TimeoutError, [])"
      using none [OF that(1)] that(2) by simp
    then show ?thesis
      by (simp only: recv_on_binary [OF frames] prod.case sum.case)
  qed
  have continues: "recv e m =
        recv e (m\<lparr>self := (self m)\<lparr>ws := Some (Binary (concat cs @ data) # rest')\<rparr>\<rparr>)"
    if "\<And>j. j < length cs \<Longrightarrow> \<not> endswith (concat (take (Suc j) cs)) sentinel"
      and "rest = Binary data # rest'" for data rest'
  proof -
    have "recv_binary c (map Binary cs' @ rest) = recv_binary (concat cs @ data) rest'"
      using none [OF that(1)] that(2) by (simp del: recv_binary.simps add: recv_binary_more)
    then show ?thesis
      by (simp add: recv_on_binary [OF frames] recv_on_binary del: recv_binary.simps
            split: prod.split sum.split)
  qed
  show ?thesis
    using found timeout continues unfolding decode_def by blast
qed


theorem recv_binary_frames_witness:
  "recv demo_env
      (fresh_machine (demo_client\<lparr>ws := Some (map Binary [hello_stream_head, hello_stream_tail] @ [])\<rparr>))
     = (Inr hello,
        fresh_machine (demo_client\<lparr>zlib := hello_stream_head @ hello_stream_tail, ws := Some []\<rparr>))
   \<and> recv demo_env (fresh_machine (demo_client\<lparr>ws := Some (map Binary [hello_stream_head] @ [])\<rparr>))
     = (Inl TimeoutError, fresh_machine (demo_client\<lparr>ws := Some []\<rparr>))"
proof -
  let ?m1 = "fresh_machine (demo_client\<lparr>ws := Some (map Binary [hello_stream_head, hello_stream_tail] @ [])\<rparr>)"
  let ?m2 = "fresh_machine (demo_client\<lparr>ws := Some (map Binary [hello_stream_head] @ [])\<rparr>)"
  have w1: "ws (self ?m1) = Some (map Binary [hello_stream_head, hello_stream_tail] @ [])"
    by (simp add: fresh_machine_def)
  have w2: "ws (self ?m2) = Some (map Binary [hello_stream_head] @ [])"
    by (simp add: fresh_machine_def)
  have head: "\<not> endswith hello_stream_head sentinel"
    by (simp add: endswith_def sentinel_def hello_stream_head_def)
  have whole: "endswith (hello_stream_head @ hello_stream_tail) sentinel"
    by (simp add: endswith_def sentinel_def hello_stream_head_def hello_stream_tail_def)
  have inflated: "zlib_decompress demo_env (zlib (self ?m1)) (hello_stream_head @ hello_stream_tail)
      = Some hello_bytes"
    by (simp add: demo_simps Let_def)
  have loaded: "demo_loads (PyBytes hello_bytes) = Some hello"
    by (simp add: demo_loads_def)
  have decoded: "json_deserialize demo_env (PyBytes hello_bytes) = Some hello"
    by (simp add: demo_env_def loaded)
  have a: "recv demo_env ?m1
     = (Inr hello,
        fresh_machine (demo_client\<lparr>zlib := hello_stream_head @ hello_stream_tail, ws := Some []\<rparr>))"
    using recv_binary_frames [OF w1, of demo_env, THEN conjunct1, THEN spec [of _ "1::nat"]]
      head whole
    by (simp add: inflated decoded less_Suc_eq) (simp add: demo_simps Let_def loaded)
  have b: "recv demo_env ?m2 = (Inl TimeoutError, fresh_machine (demo_client\<lparr>ws := Some []\<rparr>))"
    using recv_binary_frames [OF w2, of demo_env, THEN conjunct2] head
    by (simp add: fresh_machine_def)
  from a b show ?thesis by blast
qed

subsection \<open>recv: close frames\<close>

lemma recv_loop_skip:
  "set skip \<subseteq> {Ping, Pong, Continuation} \<Longrightarrow>
   fst (recv_loop e (skip @ Close close_code # fs) m) = Inl (close_error e close_code)"
proof (induction skip arbitrary: m)
  case Nil
  show ?case by simp
next
  case (Cons f skip)
  then have "f = Ping \<or> f = Pong \<or> f = Continuation" and "set skip \<subseteq> {Ping, Pong, Continuation}"
    by auto
  then show ?case
    using Cons.IH by (auto simp: Let_def split: prod.split)
qed

text \<open>
  C3, as the code has it. When the frame that the main loop of \<^verbatim>\<open>recv\<close> reads next, after
  any pings, pongs and frames it skips, is a CLOSE frame, the error raised is the one of
  the close code: \<open>GatewayInvalidTokenError\<close> for AUTHENTICATION_FAILED,
  \<open>GatewayInvalidSessionError False\<close> for SESSION_TIMEOUT and INVALID_SEQ,
  \<open>GatewayNeedsShardingError\<close> for SHARDING_REQUIRED and \<open>GatewayConnectionClosedError\<close> with
  the code for every other code, the four members of the enumeration being distinct.
\<close>

theorem recv_close_code:
  assumes "ws (self m) = Some (skip @ Close close_code # fs)"
    and "set skip \<subseteq> {Ping, Pong, Continuation}"
    and "distinct [AUTHENTICATION_FAILED (GatewayCloseCode e), SESSION_TIMEOUT (GatewayCloseCode e),
                   INVALID_SEQ (GatewayCloseCode e), SHARDING_REQUIRED (GatewayCloseCode e)]"
  shows
    "(close_code = Some (AUTHENTICATION_FAILED (GatewayCloseCode e)) \<longrightarrow>
        fst (recv e m) = Inl GatewayInvalidTokenError)
     \<and> (close_code = Some (SESSION_TIMEOUT (GatewayCloseCode e))
          \<or> close_code = Some (INVALID_SEQ (GatewayCloseCode e)) \<longrightarrow>
        fst (recv e m) = Inl (GatewayInvalidSessionError False))
     \<and> (close_code = Some (SHARDING_REQUIRED (GatewayCloseCode e)) \<longrightarrow>
        fst (recv e m) = Inl GatewayNeedsShardingError)
     \<and> (close_code \<notin> {Some (AUTHENTICATION_FAILED (GatewayCloseCode e)),
                        Some (SESSION_TIMEOUT (GatewayCloseCode e)),
                        Some (INVALID_SEQ (GatewayCloseCode e)),
                        Some (SHARDING_REQUIRED (GatewayCloseCode e))} \<longrightarrow>
        fst (recv e m) = Inl (GatewayConnectionClosedError close_code))"
proof -
  have "fst (recv e m) = Inl (close_error e close_code)"
    using recv_loop_skip [OF assms(2), of e close_code fs m] assms(1)
    by (cases "recv_loop e (skip @ Close close_code # fs) m") (simp add: recv_def)
  then show ?thesis
    using assms(3) by (auto simp: close_error_def)
qed

theorem recv_close_code_witness:
  "fst (recv demo_env (fresh_machine (demo_client\<lparr>ws := Some ([Ping, Pong] @ Close (Some 4004) # [])\<rparr>)))
     = Inl GatewayInvalidTokenError
   \<and> fst (recv demo_env (fresh_machine (demo_client\<lparr>ws := Some ([] @ Close (Some 4009) # [])\<rparr>)))
     = Inl (GatewayInvalidSessionError False)
   \<and> fst (recv demo_env (fresh_machine (demo_client\<lparr>ws := Some ([] @ Close (Some 4007) # [])\<rparr>)))
     = Inl (GatewayInvalidSessionError False)
   \<and> fst (recv demo_env (fresh_machine (demo_client\<lparr>ws := Some ([] @ Close (Some 4011) # [])\<rparr>)))
     = Inl GatewayNeedsShardingError
   \<and> fst (recv demo_env (fresh_machine (demo_client\<lparr>ws := Some ([] @ Close (Some 1000) # [])\<rparr>)))
     = Inl (GatewayConnectionClosedError (Some 1000))
   \<and> fst (recv demo_env (fresh_machine (demo_client\<lparr>ws := Some ([] @ Close None # [])\<rparr>)))
     = Inl (GatewayConnectionClosedError None)"
  using
    recv_close_code [of "fresh_machine (demo_client\<lparr>ws := Some ([Ping, Pong] @ Close (Some 4004) # [])\<rparr>)"
      "[Ping, Pong]" "Some 4004" "[]" demo_env]
    recv_close_code [of "fresh_machine (demo_client\<lparr>ws := Some ([] @ Close (Some 4009) # [])\<rparr>)"
      "[]" "Some 4009" "[]" demo_env]
    recv_close_code [of "fresh_machine (demo_client\<lparr>ws := Some ([] @ Close (Some 4007) # [])\<rparr>)"
      "[]" "Some 4007" "[]" demo_env]
    recv_close_code [of "fresh_machine (demo_client\<lparr>ws := Some ([] @ Close (Some 4011) # [])\<rparr>)"
      "[]" "Some 4011" "[]" demo_env]
    recv_close_code [of "fresh_machine (demo_client\<lparr>ws := Some ([] @ Close (Some 1000) # [])\<rparr>)"
      "[]" "Some 1000" "[]" demo_env]
    recv_close_code [of "fresh_machine (demo_client\<lparr>ws := Some ([] @ Close None # [])\<rparr>)"
      "[]" "None" "[]" demo_env]
  by (simp add: demo_simps)

lemma recv_close_mid_payload:
  "ws (self m) = Some (Binary data # Close close_code # fs) \<Longrightarrow> \<not> endswith data sentinel \<Longrightarrow>
   fst (recv e m) = Inl (GatewayError [Lit ''Expected a binary message but got '', Interp_type CLOSE])"
  by (simp add: recv_def)

text \<open>
  C3 as stated fails for a CLOSE frame that \<^verbatim>\<open>recv\<close> reads while it collects a binary
  payload: whatever the close code, the error is the \<open>GatewayError\<close> of the inner loop.
\<close>

theorem recv_close_mid_payload_counterexample:
  "fst (recv demo_env
          (fresh_machine (demo_client\<lparr>ws := Some [Binary [0x7B, 0x7D], Close (Some 4004)]\<rparr>)))
     = Inl (GatewayError [Lit ''Expected a binary message but got '', Interp_type CLOSE])
   \<and> close_error demo_env (Some 4004) = GatewayInvalidTokenError"
  by (simp add: recv_def demo_simps endswith_def sentinel_def close_error_def)

subsection \<open>The poll loop\<close>

text \<open>
  C6. When the frame that a turn of the poll loop receives has an \<^verbatim>\<open>op\<close> equal to 0 and
  the fields \<^verbatim>\<open>d\<close>, \<^verbatim>\<open>s\<close> and \<^verbatim>\<open>t\<close>, the turn sets \<^verbatim>\<open>seq\<close> to the \<^verbatim>\<open>s\<close> field and then
  calls the dispatch sink with the client (its \<^verbatim>\<open>seq\<close> already set), the \<^verbatim>\<open>t\<close> field and
  the \<^verbatim>\<open>d\<close> field; nothing else is called in between and the loop goes on.
\<close>

theorem poll_cycle_dispatch:
  assumes "recv e m = (Inr next, m1)"
    and "py_getitem next ''op'' = Inr op" and "py_eq_int op 0"
    and "py_getitem next ''d'' = Inr d"
    and "py_getitem next ''s'' = Inr s"
    and "py_getitem next ''t'' = Inr event_name"
  shows "poll_cycle e m =
           (Inr Again,
            m1\<lparr>self := (self m1)\<lparr>seq := s\<rparr>,
               trace := trace m1 @ [EvDispatch ((self m1)\<lparr>seq := s\<rparr>) event_name d]\<rparr>)"
  using assms by (simp add: poll_cycle_def and_then_def lift_def emit_def)

theorem poll_cycle_dispatch_witness:
  "poll_cycle demo_env (fresh_machine (demo_client\<lparr>ws := Some [Text (json_dumps message_create)]\<rparr>))
     = (Inr Again,
        \<lparr>self = demo_client\<lparr>ws := Some [], seq := JInt 43\<rparr>,
         trace = [EvDispatch (demo_client\<lparr>ws := Some [], seq := JInt 43\<rparr>)
                    (JStr ''MESSAGE_CREATE'') (JObj [])],
         tick = 0\<rparr>)"
proof -
  let ?m = "fresh_machine (demo_client\<lparr>ws := Some [Text (json_dumps message_create)]\<rparr>)"
  have r: "recv demo_env ?m = (Inr message_create, fresh_machine (demo_client\<lparr>ws := Some []\<rparr>))"
    by (simp add: recv_text fresh_machine_def decode_def demo_env_def demo_loads_message_create)
  have op: "py_getitem message_create ''op'' = Inr (JInt 0)"
    and d: "py_getitem message_create ''d'' = Inr (JObj [])"
    and s: "py_getitem message_create ''s'' = Inr (JInt 43)"
    and t: "py_getitem message_create ''t'' = Inr (JStr ''MESSAGE_CREATE'')"
    by (simp_all add: message_create_def)
  have z: "py_eq_int (JInt 0) 0"
    by simp
  show ?thesis
    using poll_cycle_dispatch [OF r op z d s t] by (simp add: fresh_machine_def)
qed

subsection \<open>What recv leaves alone\<close>

lemma sent_texts_append [simp]: "sent_texts (xs @ ys) = sent_texts xs @ sent_texts ys"
  by (induction xs rule: sent_texts.induct) simp_all

lemma recv_loop_preserved: "recv_loop e fs m = (r, rest, m1) \<Longrightarrow> preserved m m1"
proof (induction e fs m arbitrary: r rest m1 rule: recv_loop.induct)
  case (3 e data fs m)
  then show ?case
    by (auto simp: preserved_def Let_def split: prod.splits sum.splits option.splits)
next
  case (4 e fs m)
  from 4 show ?case
    by (simp add: preserved_def emit_def)
next
  case (5 e fs m)
  from 5 show ?case
    by (simp add: preserved_def perf_counter_def)
qed (auto simp: preserved_def)

lemma recv_preserved: "recv e m = (r, m1) \<Longrightarrow> preserved m m1"
  using recv_loop_preserved [of e "the (ws (self m))" m]
  by (auto simp: recv_def preserved_def split: option.splits prod.splits)

lemma recv_socket: "recv e m = (Inr pl, m1) \<Longrightarrow> ws (self m1) \<noteq> None"
  by (auto simp: recv_def split: option.splits prod.splits)

subsection \<open>The handshake\<close>

lemma connect_handshake_shape:
  assumes "connect_handshake e (Some fs) m = (r, m1)"
    and "recv e (m\<lparr>tick := Suc (tick m),
                   self := (self m)\<lparr>session := Some ClientSession, ws := Some fs,
                                    connected_at := Fin (perf_clock e (tick m))\<rparr>,
                   trace := trace m @ [EvSessionOpen, EvWsConnect (url (self m)),
                                      EvCreateTask PingKeepAlive]\<rparr>) = (r0, m6)"
  shows "self m1 = self m6"
    and "case r of
           Inl err \<Rightarrow> trace m1 = trace m6
         | Inr hb \<Rightarrow> (\<exists>pl. r0 = Inr pl) \<and> trace m1 = trace m6 @ [EvCreateTask (HeartbeatKeepAlive hb)]"
  using assms
  by (auto simp: connect_handshake_def Let_def emit_def perf_counter_def and_then_def lift_def
           split: prod.splits sum.splits if_splits)

lemma connect_handshake_preserved:
  assumes "connect_handshake e dial m = (r, m1)"
  shows "preserved m m1"
proof (cases dial)
  case None
  with assms show ?thesis
    by (auto simp: connect_handshake_def preserved_def Let_def emit_def)
next
  case (Some fs)
  let ?m5 = "m\<lparr>tick := Suc (tick m),
                   self := (self m)\<lparr>session := Some ClientSession, ws := Some fs,
                                    connected_at := Fin (perf_clock e (tick m))\<rparr>,
                   trace := trace m @ [EvSessionOpen, EvWsConnect (url (self m)),
                                      EvCreateTask PingKeepAlive]\<rparr>"
  obtain r0 m6 where r: "recv e ?m5 = (r0, m6)"
    by (cases "recv e ?m5")
  from connect_handshake_shape [OF assms [unfolded Some] r]
  have s: "self m1 = self m6"
    and t: "trace m1 = trace m6 \<or> (\<exists>hb. trace m1 = trace m6 @ [EvCreateTask (HeartbeatKeepAlive hb)])"
    by (auto split: sum.splits)
  from recv_preserved [OF r] s t show ?thesis
    by (auto simp: preserved_def)
qed

lemma connect_handshake_socket:
  assumes "connect_handshake e dial m = (Inr hb, m1)"
  shows "ws (self m1) \<noteq> None"
proof (cases dial)
  case None
  with assms show ?thesis
    by (simp add: connect_handshake_def Let_def)
next
  case (Some fs)
  let ?m5 = "m\<lparr>tick := Suc (tick m),
                   self := (self m)\<lparr>session := Some ClientSession, ws := Some fs,
                                    connected_at := Fin (perf_clock e (tick m))\<rparr>,
                   trace := trace m @ [EvSessionOpen, EvWsConnect (url (self m)),
                                      EvCreateTask PingKeepAlive]\<rparr>"
  obtain r0 m6 where r: "recv e ?m5 = (r0, m6)"
    by (cases "recv e ?m5")
  from connect_handshake_shape [OF assms [unfolded Some] r]
  have "self m1 = self m6" and "\<exists>pl. r0 = Inr pl"
    by auto
  with r show ?thesis
    using recv_socket by metis
qed


lemma connect_handshake_hello:
  assumes "json_deserialize e (PyStr text) =
             Some (JObj [(''op'', JInt 10), (''d'', JObj [(''heartbeat_interval'', JInt 41250)])])"
  shows "connect_handshake e (Some (Text text # fs)) m =
           (Inr (165/4),
            m\<lparr>tick := Suc (tick m),
              self := (self m)\<lparr>session := Some ClientSession, ws := Some fs,
                               connected_at := Fin (perf_clock e (tick m))\<rparr>,
              trace := trace m @ [EvSessionOpen, EvWsConnect (url (self m)),
                                 EvCreateTask PingKeepAlive,
                                 EvCreateTask (HeartbeatKeepAlive (165/4))]\<rparr>)"
  using assms
  by (simp add: connect_handshake_def Let_def emit_def perf_counter_def and_then_def lift_def
        recv_def decode_def)

lemma identify_payload_preserved:
  "preserved m m1 \<Longrightarrow> identify_payload e (self m1) = identify_payload e (self m)"
  by (simp add: preserved_def identify_payload_def)

lemma resume_payload_preserved:
  "preserved m m1 \<Longrightarrow> resume_payload (self m1) = resume_payload (self m)"
  by (simp add: preserved_def resume_payload_def)

lemma send_fits_texts:
  "length (json_serialize e p) \<le> 4096 \<Longrightarrow> ws (self m) \<noteq> None \<Longrightarrow>
   fst (send e p m) = Inr ()
   \<and> sent_texts (trace (snd (send e p m))) = sent_texts (trace m) @ [json_serialize e p]"
  by (simp add: send_fits)

text \<open>
  C2. After a handshake that succeeded nothing has been sent yet, and the authentication
  step is one call of \<^verbatim>\<open>send\<close>: with the IDENTIFY payload (opcode 2) when the client was
  given no session id, and otherwise with opcode 6 and the token, the \<^verbatim>\<open>seq\<close> and the
  session id that the client had when \<^verbatim>\<open>connect\<close> was called. When the text fits, it is the
  first text written to the socket.
\<close>

theorem connect_authenticate_choice:
  assumes "connect_handshake e dial m = (Inr hb, m1)"
  shows
    "sent_texts (trace m1) = sent_texts (trace m)
     \<and> (session_id (self m) = None \<longrightarrow>
          connect_authenticate e m1 = send e (identify_payload e (self m)) m1
          \<and> py_getitem (identify_payload e (self m)) ''op'' = Inr (JInt 2)
          \<and> (length (json_serialize e (identify_payload e (self m))) \<le> 4096 \<longrightarrow>
                fst (connect_authenticate e m1) = Inr ()
                \<and> sent_texts (trace (snd (connect_authenticate e m1)))
                    = sent_texts (trace m) @ [json_serialize e (identify_payload e (self m))]))
     \<and> (\<forall>sid. session_id (self m) = Some sid \<longrightarrow>
          (let payload = JObj [(''op'', JInt 6),
                               (''d'', JObj [(''token'', JStr (token (self m))),
                                             (''seq'', seq (self m)),
                                             (''session_id'', JStr sid)])]
           in connect_authenticate e m1 = send e payload m1
              \<and> (length (json_serialize e payload) \<le> 4096 \<longrightarrow>
                    fst (connect_authenticate e m1) = Inr ()
                    \<and> sent_texts (trace (snd (connect_authenticate e m1)))
                        = sent_texts (trace m) @ [json_serialize e payload])))"
proof -
  have p: "preserved m m1"
    using assms by (rule connect_handshake_preserved)
  have sock: "ws (self m1) \<noteq> None"
    using assms by (rule connect_handshake_socket)
  have unsent: "sent_texts (trace m1) = sent_texts (trace m)"
    and sid: "session_id (self m1) = session_id (self m)"
    using p by (simp_all add: preserved_def)
  have ident: "connect_authenticate e m1 = send e (identify_payload e (self m)) m1"
    if "session_id (self m) = None"
    using that sid identify_payload_preserved [OF p]
    by (simp add: connect_authenticate_def identify_def)
  have op2: "py_getitem (identify_payload e (self m)) ''op'' = Inr (JInt 2)"
    by (simp add: identify_payload_def)
  have res: "connect_authenticate e m1 =
      send e (JObj [(''op'', JInt 6),
                    (''d'', JObj [(''token'', JStr (token (self m))),
                                  (''seq'', seq (self m)),
                                  (''session_id'', JStr sid')])]) m1"
    if "session_id (self m) = Some sid'" for sid'
    using that sid resume_payload_preserved [OF p]
    by (simp add: connect_authenticate_def resume_def) (simp add: resume_payload_def)
  have ident_fits:
    "fst (connect_authenticate e m1) = Inr ()
     \<and> sent_texts (trace (snd (connect_authenticate e m1)))
         = sent_texts (trace m) @ [json_serialize e (identify_payload e (self m))]"
    if "session_id (self m) = None"
      and "length (json_serialize e (identify_payload e (self m))) \<le> 4096"
    using send_fits_texts [OF that(2) sock] by (simp only: ident [OF that(1)] unsent [symmetric])
  have res_fits:
    "fst (connect_authenticate e m1) = Inr ()
     \<and> sent_texts (trace (snd (connect_authenticate e m1)))
         = sent_texts (trace m)
           @ [json_serialize e
                (JObj [(''op'', JInt 6),
                       (''d'', JObj [(''token'', JStr (token (self m))),
                                     (''seq'', seq (self m)),
                                     (''session_id'', JStr sid')])])]"
    if "session_id (self m) = Some sid'"
      and "length (json_serialize e
                (JObj [(''op'', JInt 6),
                       (''d'', JObj [(''token'', JStr (token (self m))),
                                     (''seq'', seq (self m)),
                                     (''session_id'', JStr sid')])])) \<le> 4096" for sid'
    using send_fits_texts [OF that(2) sock] by (simp only: res [OF that(1)] unsent [symmetric])
  show ?thesis
    unfolding Let_def
    using unsent ident op2 res ident_fits res_fits by blast
qed


theorem connect_authenticate_choice_witness:
  "sent_texts (trace (snd (connect_authenticate demo_env
      (snd (connect_handshake demo_env (Some [Text (json_dumps hello)]) (fresh_machine demo_client))))))
     = [json_dumps (identify_payload demo_env demo_client)]
   \<and> sent_texts (trace (snd (connect_authenticate demo_env
      (snd (connect_handshake demo_env (Some [Text (json_dumps hello)])
              (fresh_machine (demo_client\<lparr>session_id := Some ''S'', seq := JInt 42\<rparr>)))))))
     = [json_dumps (JObj [(''op'', JInt 6),
                          (''d'', JObj [(''token'', JStr ''T''), (''seq'', JInt 42),
                                        (''session_id'', JStr ''S'')])])]"
proof -
  have de: "json_deserialize demo_env (PyStr (json_dumps hello)) =
             Some (JObj [(''op'', JInt 10), (''d'', JObj [(''heartbeat_interval'', JInt 41250)])])"
    using demo_loads_hello by (simp add: demo_env_def hello_def)
  let ?m = "fresh_machine demo_client"
  let ?n = "fresh_machine (demo_client\<lparr>session_id := Some ''S'', seq := JInt 42\<rparr>)"
  have hm: "connect_handshake demo_env (Some [Text (json_dumps hello)]) ?m
       = (Inr (165/4), snd (connect_handshake demo_env (Some [Text (json_dumps hello)]) ?m))"
    by (simp add: connect_handshake_hello [OF de])
  have hn: "connect_handshake demo_env (Some [Text (json_dumps hello)]) ?n
       = (Inr (165/4), snd (connect_handshake demo_env (Some [Text (json_dumps hello)]) ?n))"
    by (simp add: connect_handshake_hello [OF de])
  have ser: "json_serialize demo_env = json_dumps"
    by (simp add: demo_env_def)
  have sm: "session_id (self ?m) = None" "trace ?m = []" "self ?m = demo_client"
    by (simp_all add: demo_simps)
  have sn: "session_id (self ?n) = Some ''S''" "trace ?n = []" "seq (self ?n) = JInt 42"
      "token (self ?n) = ''T''"
    by (simp_all add: demo_simps)
  have lm: "length (json_serialize demo_env (identify_payload demo_env (self ?m))) \<le> 4096"
    by (simp add: demo_simps identify_payload_def decimal.simps)
  have ln: "length (json_serialize demo_env
               (JObj [(''op'', JInt 6),
                      (''d'', JObj [(''token'', JStr (token (self ?n))), (''seq'', seq (self ?n)),
                                    (''session_id'', JStr ''S'')])])) \<le> 4096"
    by (simp add: demo_simps decimal.simps)
  from connect_authenticate_choice [OF hm] sm(1) lm
  have "sent_texts (trace (snd (connect_authenticate demo_env
      (snd (connect_handshake demo_env (Some [Text (json_dumps hello)]) ?m)))))
     = sent_texts (trace ?m) @ [json_serialize demo_env (identify_payload demo_env (self ?m))]"
    by blast
  then have a: "sent_texts (trace (snd (connect_authenticate demo_env
      (snd (connect_handshake demo_env (Some [Text (json_dumps hello)]) ?m)))))
     = [json_dumps (identify_payload demo_env demo_client)]"
    by (simp only: sm ser sent_texts.simps append_Nil)
  from connect_authenticate_choice [OF hn, unfolded Let_def] sn(1) ln
  have "sent_texts (trace (snd (connect_authenticate demo_env
      (snd (connect_handshake demo_env (Some [Text (json_dumps hello)]) ?n)))))
     = sent_texts (trace ?n)
       @ [json_serialize demo_env
            (JObj [(''op'', JInt 6),
                   (''d'', JObj [(''token'', JStr (token (self ?n))), (''seq'', seq (self ?n)),
                                 (''session_id'', JStr ''S'')])])]"
    by blast
  then have b: "sent_texts (trace (snd (connect_authenticate demo_env
      (snd (connect_handshake demo_env (Some [Text (json_dumps hello)]) ?n)))))
     = [json_dumps (JObj [(''op'', JInt 6),
                          (''d'', JObj [(''token'', JStr ''T''), (''seq'', JInt 42),
                                        (''session_id'', JStr ''S'')])])]"
    by (simp only: sn ser sent_texts.simps append_Nil)
  from a b show ?thesis by blast
qed

subsection \<open>The IDENTIFY handshake\<close>

lemma connect_identify_running:
  assumes "json_deserialize e (PyStr text) =
             Some (JObj [(''op'', JInt 10), (''d'', JObj [(''heartbeat_interval'', JInt 41250)])])"
    and "length (json_serialize e (identify_payload e c)) \<le> 4096"
    and "session_id c = None"
  shows "connect e (Some (Text text # fs)) sched (fresh_machine c) =
           (case gather_tasks e (165/4) sched
                   \<lparr>self = c\<lparr>session := Some ClientSession, ws := Some fs,
                               connected_at := Fin (perf_clock e 0)\<rparr>,
                    trace = [EvSessionOpen, EvWsConnect (url c), EvCreateTask PingKeepAlive,
                             EvCreateTask (HeartbeatKeepAlive (165/4)), EvAcquire,
                             EvSendStr (json_serialize e (identify_payload e c))],
                    tick = 1\<rparr> of
              (Running, m1) \<Rightarrow> (Running, m1)
            | (Raised err, m1) \<Rightarrow> (Raised err, connect_finally m1))"
proof -
  have idp: "identify_payload e (c\<lparr>session := Some ClientSession, ws := Some fs,
                               connected_at := Fin (perf_clock e 0)\<rparr>) = identify_payload e c"
    by (simp add: identify_payload_def)
  show ?thesis
    using assms(2,3)
    by (simp add: connect_def connect_body_def connect_handshake_hello [OF assms(1)]
          connect_authenticate_def identify_def fresh_machine_def send_fits idp)
qed

lemma connect_handshake_parts:
  "connect_handshake e dial m =
     and_then (connect_open e dial) (\<lambda>_.
     and_then (expect_hello e) (\<lambda>hb_interval m1.
       (Inr hb_interval, emit (EvCreateTask (HeartbeatKeepAlive hb_interval)) m1))) m"
  by (cases dial)
    (simp_all add: connect_handshake_def connect_open_def expect_hello_def and_then_def lift_def
      Let_def split: prod.splits sum.splits)

lemma send_suspended_no_turns:
  "send_suspended e hb [] failed payload m =
     (case send e payload m of (r, m1) \<Rightarrow> (r, failed, m1))"
  by (simp add: send_suspended_def send_def Let_def split: option.split)

text \<open>
  When no task takes a turn before the gather, the run is the one of \<open>connect_body\<close>.
\<close>

lemma connect_body_until_gather:
  "connect_body e dial sched m =
     (case connect_until_gather e dial [] [] m of
        (Inl err, failed, m1) \<Rightarrow> (Raised err, m1)
      | (Inr hb_interval, failed, m1) \<Rightarrow> gather_tasks e hb_interval sched m1)"
  by (simp add: connect_body_def connect_until_gather_def connect_handshake_parts
        send_suspended_no_turns connect_authenticate_def identify_def resume_def and_then_def
        Let_def split: prod.splits sum.splits)














subsection \<open>No part of connect tears the connection down\<close>

lemma not_torn_down_trans:
  "not_torn_down m m1 \<Longrightarrow> not_torn_down m1 m2 \<Longrightarrow> not_torn_down m m2"
  by (simp add: not_torn_down_def)

lemma send_not_torn_down: "send e p m = (r, m1) \<Longrightarrow> not_torn_down m m1"
  by (auto simp: send_def not_torn_down_def Let_def emit_def split: if_splits option.splits)

lemma recv_not_torn_down: "recv e m = (r, m1) \<Longrightarrow> not_torn_down m m1"
  using recv_preserved [of e m r m1] by (simp add: preserved_def not_torn_down_def)

lemma ping_cycle_not_torn_down: "ping_cycle e m = (r, m1) \<Longrightarrow> not_torn_down m m1"
  by (auto simp: ping_cycle_def not_torn_down_def Let_def emit_def perf_counter_def
           split: if_splits option.splits)

lemma heartbeat_cycle_not_torn_down:
  assumes "heartbeat_cycle e hb m = (r, m1)"
  shows "not_torn_down m m1"
proof -
  obtain r0 m0 where s: "send e (JObj [(''op'', JInt 1), (''d'', seq (self m))]) m = (r0, m0)"
    by (cases "send e (JObj [(''op'', JInt 1), (''d'', seq (self m))]) m")
  from send_not_torn_down [OF s] assms s show ?thesis
    by (auto simp: heartbeat_cycle_def not_torn_down_def Let_def emit_def perf_counter_def
             split: if_splits sum.splits)
qed

lemma poll_cycle_not_torn_down:
  assumes "poll_cycle e m = (r, m1)"
  shows "not_torn_down m m1"
proof -
  obtain r0 m0 where rc: "recv e m = (r0, m0)"
    by (cases "recv e m")
  obtain r2 m2 where s: "send e (JObj [(''op'', JInt 11)]) m0 = (r2, m2)"
    by (cases "send e (JObj [(''op'', JInt 11)]) m0")
  from recv_not_torn_down [OF rc] send_not_torn_down [OF s] assms rc s show ?thesis
    by (auto simp: poll_cycle_def not_torn_down_def and_then_def lift_def emit_def
                   perf_counter_def Let_def
             split: if_splits sum.splits prod.splits)
qed

lemma task_turn_not_torn_down: "task_turn e hb t m = (r, m1) \<Longrightarrow> not_torn_down m m1"
  by (cases t)
    (simp_all add: ping_cycle_not_torn_down heartbeat_cycle_not_torn_down
       poll_cycle_not_torn_down)

lemma gather_tasks_not_torn_down:
  "gather_tasks e hb sched m = (r, m1) \<Longrightarrow> not_torn_down m m1"
proof (induction sched arbitrary: m)
  case Nil
  then show ?case by (simp add: not_torn_down_def)
next
  case (Cons t ts)
  obtain r0 m0 where t: "task_turn e hb t m = (r0, m0)"
    by (cases "task_turn e hb t m")
  show ?case
  proof (cases r0)
    case (Inl err)
    with Cons.prems t have "m1 = m0" by simp
    with task_turn_not_torn_down [OF t] show ?thesis by simp
  next
    case (Inr ctl)
    with Cons.prems t have "gather_tasks e hb ts m0 = (r, m1)" by simp
    from not_torn_down_trans [OF task_turn_not_torn_down [OF t] Cons.IH [OF this]]
    show ?thesis .
  qed
qed

lemma connect_authenticate_not_torn_down:
  "connect_authenticate e m = (r, m1) \<Longrightarrow> not_torn_down m m1"
  by (auto simp: connect_authenticate_def identify_def resume_def
           intro: send_not_torn_down split: if_splits)


lemma connect_handshake_not_torn_down:
  "connect_handshake e dial m = (r, m1) \<Longrightarrow> not_torn_down m m1"
  using connect_handshake_preserved [of e dial m r m1]
  by (simp add: preserved_def not_torn_down_def)

lemma connect_body_not_torn_down:
  assumes "connect_body e dial sched m = (r, m1)"
  shows "not_torn_down m m1"
proof -
  obtain r0 m0 where h: "connect_handshake e dial m = (r0, m0)"
    by (cases "connect_handshake e dial m")
  obtain r2 m2 where a: "connect_authenticate e m0 = (r2, m2)"
    by (cases "connect_authenticate e m0")
  note h' = connect_handshake_not_torn_down [OF h]
  note a' = not_torn_down_trans [OF h' connect_authenticate_not_torn_down [OF a]]
  show ?thesis
  proof (cases r0)
    case (Inl err)
    with assms h have "m1 = m0" by (simp add: connect_body_def)
    with h' show ?thesis by simp
  next
    case hb: (Inr hb)
    show ?thesis
    proof (cases r2)
      case (Inl err)
      with assms h a hb have "m1 = m2" by (simp add: connect_body_def)
      with a' show ?thesis by simp
    next
      case (Inr u)
      with assms h a hb have "gather_tasks e hb sched m2 = (r, m1)"
        by (simp add: connect_body_def)
      from not_torn_down_trans [OF a' gather_tasks_not_torn_down [OF this]]
      show ?thesis .
    qed
  qed
qed

lemma connect_raised:
  "connect e dial sched m = (Raised err, m1) \<Longrightarrow>
   \<exists>m0. connect_body e dial sched m = (Raised err, m0) \<and> m1 = connect_finally m0"
  by (auto simp: connect_def split: prod.splits outcome.splits)

text \<open>
  C8, as the code has it. Whenever \<^verbatim>\<open>connect\<close> terminates, and it only terminates by an
  exception of the handshake, of the authentication or of one of the three tasks, its
  \<^verbatim>\<open>finally\<close> block has set \<^verbatim>\<open>connected_at\<close> and the four timing samples to NaN, so the
  client reports disconnected. Nothing else is torn down: the latch is as it was, and
  neither the socket nor the session was closed.
\<close>

theorem connect_teardown:
  assumes "connect e dial sched m = (Raised err, m1)"
  shows
    "connected_at (self m1) = NaN
     \<and> last_ping_sent (self m1) = NaN
     \<and> last_pong_received (self m1) = NaN
     \<and> last_heartbeat_sent (self m1) = NaN
     \<and> last_heartbeat_ack_received (self m1) = NaN
     \<and> \<not> is_connected (self m1)
     \<and> closed_event (self m1) = closed_event (self m)
     \<and> filter is_teardown (trace m1) = filter is_teardown (trace m)"
proof -
  from connect_raised [OF assms] obtain m0
    where b: "connect_body e dial sched m = (Raised err, m0)" and f: "m1 = connect_finally m0"
    by blast
  from connect_body_not_torn_down [OF b] f show ?thesis
    by (simp add: not_torn_down_def connect_finally_def is_connected_def)
qed


lemma demo_hello:
  "json_deserialize demo_env (PyStr (json_dumps hello)) =
     Some (JObj [(''op'', JInt 10), (''d'', JObj [(''heartbeat_interval'', JInt 41250)])])"
  using demo_loads_hello by (simp add: demo_env_def hello_def)

lemma demo_identify_fits:
  "length (json_serialize demo_env (identify_payload demo_env demo_client)) \<le> 4096"
  by (simp add: demo_simps identify_payload_def decimal.simps)

lemma demo_session_id: "session_id demo_client = None"
  by (simp add: demo_simps)

lemma connect_reconnect:
  "connect demo_env (Some [Text (json_dumps hello), Text (json_dumps reconnect)]) [PollTask]
      (fresh_machine demo_client)
     = (Raised GatewayMustReconnectError,
        \<lparr>self = demo_client\<lparr>session := Some ClientSession, ws := Some []\<rparr>,
         trace = [EvSessionOpen, EvWsConnect (url demo_client), EvCreateTask PingKeepAlive,
                  EvCreateTask (HeartbeatKeepAlive (165/4)), EvAcquire,
                  EvSendStr (json_dumps (identify_payload demo_env demo_client))],
         tick = 1\<rparr>)"
proof -
  have d: "json_deserialize demo_env (PyStr (json_dumps reconnect)) = Some reconnect"
    using demo_loads_reconnect by (simp add: demo_env_def)
  have ser: "json_serialize demo_env = json_dumps"
    by (simp add: demo_env_def)
  have nan: "connected_at demo_client = NaN" "last_ping_sent demo_client = NaN"
      "last_pong_received demo_client = NaN" "last_heartbeat_sent demo_client = NaN"
      "last_heartbeat_ack_received demo_client = NaN"
    by (simp_all add: demo_simps)
  have p: "poll_cycle demo_env
             \<lparr>self = demo_client\<lparr>session := Some ClientSession,
                                  ws := Some [Text (json_dumps reconnect)],
                                  connected_at := Fin (perf_clock demo_env 0)\<rparr>,
              trace = tr, tick = Suc 0\<rparr>
           = (Inl GatewayMustReconnectError,
              \<lparr>self = demo_client\<lparr>session := Some ClientSession, ws := Some [],
                                   connected_at := Fin (perf_clock demo_env 0)\<rparr>,
               trace = tr, tick = Suc 0\<rparr>)" for tr
    by (simp add: poll_cycle_def and_then_def lift_def recv_def decode_def d)
      (simp add: reconnect_def and_then_def lift_def)
  show ?thesis
    by (simp add: connect_identify_running [OF demo_hello demo_identify_fits demo_session_id] p
          connect_finally_def ser)
      (simp add: gateway_client.equality nan)
qed

theorem connect_teardown_witness:
  "connected_at (self (snd (connect demo_env
        (Some [Text (json_dumps hello), Text (json_dumps reconnect)]) [PollTask]
        (fresh_machine demo_client)))) = NaN
   \<and> last_heartbeat_sent (self (snd (connect demo_env
        (Some [Text (json_dumps hello), Text (json_dumps reconnect)]) [PollTask]
        (fresh_machine demo_client)))) = NaN
   \<and> \<not> is_connected (self (snd (connect demo_env
        (Some [Text (json_dumps hello), Text (json_dumps reconnect)]) [PollTask]
        (fresh_machine demo_client))))"
  using connect_teardown [OF connect_reconnect] by (simp add: connect_reconnect)

text \<open>
  C8 as stated fails: when the poll task ends the connection with a reconnect request,
  \<^verbatim>\<open>connect\<close> terminates with the latch unset and without a single close of the socket or
  of the session, which both stay attached to the client.
\<close>

theorem connect_no_close_counterexample:
  "fst (connect demo_env (Some [Text (json_dumps hello), Text (json_dumps reconnect)]) [PollTask]
          (fresh_machine demo_client)) = Raised GatewayMustReconnectError
   \<and> \<not> closed_event (self (snd (connect demo_env
          (Some [Text (json_dumps hello), Text (json_dumps reconnect)]) [PollTask]
          (fresh_machine demo_client))))
   \<and> filter is_teardown (trace (snd (connect demo_env
          (Some [Text (json_dumps hello), Text (json_dumps reconnect)]) [PollTask]
          (fresh_machine demo_client)))) = []
   \<and> ws (self (snd (connect demo_env
          (Some [Text (json_dumps hello), Text (json_dumps reconnect)]) [PollTask]
          (fresh_machine demo_client)))) = Some []
   \<and> session (self (snd (connect demo_env
          (Some [Text (json_dumps hello), Text (json_dumps reconnect)]) [PollTask]
          (fresh_machine demo_client)))) = Some ClientSession"
  by (simp add: connect_reconnect) (simp add: demo_simps)

subsection \<open>Where the zombie error can come from\<close>

lemma recv_binary_not_zombied: "fst (recv_binary buffer fs) \<noteq> Inl GatewayZombiedError"
  by (induction buffer fs rule: recv_binary.induct) (auto split: ws_message.splits)

lemma recv_loop_not_zombied: "fst (recv_loop e fs m) \<noteq> Inl GatewayZombiedError"
proof (induction e fs m rule: recv_loop.induct)
  case (3 e data fs m)
  show ?case
    using recv_binary_not_zombied [of data fs]
    by (auto simp: Let_def decode_def split: prod.splits sum.splits option.splits)
next
  case (5 e fs m)
  then show ?case
    by (simp add: perf_counter_def)
qed (auto simp: decode_def close_error_def split: option.splits)

lemma recv_not_zombied: "fst (recv e m) \<noteq> Inl GatewayZombiedError"
  using recv_loop_not_zombied [of e "the (ws (self m))" m]
  by (auto simp: recv_def split: option.splits prod.splits)

lemma py_getitem_not_zombied: "py_getitem j k \<noteq> Inl GatewayZombiedError"
  by (cases j) (auto split: option.splits)

lemma ping_cycle_not_zombied: "fst (ping_cycle e m) \<noteq> Inl GatewayZombiedError"
  by (simp add: ping_cycle_def Let_def perf_counter_def split: option.splits)

lemma poll_cycle_not_zombied: "fst (poll_cycle e m) \<noteq> Inl GatewayZombiedError"
proof -
  obtain r0 m0 where rc: "recv e m = (r0, m0)"
    by (cases "recv e m")
  obtain r2 m2 where s: "send e (JObj [(''op'', JInt 11)]) m0 = (r2, m2)"
    by (cases "send e (JObj [(''op'', JInt 11)]) m0")
  from recv_not_zombied [of e m] send_not_zombied [of e "JObj [(''op'', JInt 11)]" m0] rc s
  show ?thesis
    using py_getitem_not_zombied
    by (auto simp: poll_cycle_def and_then_def lift_def perf_counter_def Let_def
             split: sum.splits prod.splits if_splits)
qed

lemma ping_cycle_heartbeat_sent:
  "last_heartbeat_sent (self (snd (ping_cycle e m))) = last_heartbeat_sent (self m)"
  by (simp add: ping_cycle_def Let_def perf_counter_def emit_def split: option.splits)

lemma send_self: "self (snd (send e p m)) = self m"
  by (simp add: send_def Let_def emit_def split: option.splits)

lemma poll_cycle_heartbeat_sent:
  "last_heartbeat_sent (self (snd (poll_cycle e m))) = last_heartbeat_sent (self m)"
proof -
  obtain r0 m0 where rc: "recv e m = (r0, m0)"
    by (cases "recv e m")
  have k: "last_heartbeat_sent (self m0) = last_heartbeat_sent (self m)"
    using recv_preserved [OF rc] by (simp add: preserved_def)
  obtain r2 m2 where s: "send e (JObj [(''op'', JInt 11)]) m0 = (r2, m2)"
    by (cases "send e (JObj [(''op'', JInt 11)]) m0")
  from send_self [of e "JObj [(''op'', JInt 11)]" m0] s have "self m2 = self m0"
    by simp
  with rc s k show ?thesis
    by (auto simp: poll_cycle_def and_then_def lift_def perf_counter_def Let_def emit_def
             split: sum.splits prod.splits if_splits)
qed

lemma heartbeat_cycle_raises_zombied:
  "heartbeat_cycle e hb m = (Inl GatewayZombiedError, m1) \<Longrightarrow>
   m1 = m \<and> \<not> closed_event (self m)
   \<and> py_lt (last_heartbeat_ack_received (self m)) (last_heartbeat_sent (self m))"
  using send_not_zombied [of e "JObj [(''op'', JInt 1), (''d'', seq (self m))]" m]
  by (auto simp: heartbeat_cycle_def Let_def perf_counter_def
           split: if_splits prod.splits sum.splits)

lemma heartbeat_cycle_stamp:
  assumes "heartbeat_cycle e hb m = (Inr ctl, m1)"
    and "last_heartbeat_sent (self m1) \<noteq> last_heartbeat_sent (self m)"
  shows "\<not> closed_event (self m) \<and> ctl = Again"
  using assms
  by (auto simp: heartbeat_cycle_def Let_def perf_counter_def
           split: if_splits prod.splits sum.splits)

lemma heartbeat_cycle_sent:
  assumes "heartbeat_cycle e hb m = (Inr Again, m1)" and "\<not> closed_event (self m)"
  shows "sent_texts (trace m1) =
           sent_texts (trace m) @ [json_serialize e (JObj [(''op'', JInt 1), (''d'', seq (self m))])]
         \<and> \<not> isnan (last_heartbeat_sent (self m1))"
  using assms
  by (auto simp: heartbeat_cycle_def send_def Let_def perf_counter_def emit_def
           split: if_splits prod.splits sum.splits option.splits)


lemma task_turn_not_zombied:
  "task_turn e hb t m = (Inl GatewayZombiedError, m1) \<Longrightarrow>
   t = HeartbeatTask \<and> m1 = m
   \<and> py_lt (last_heartbeat_ack_received (self m)) (last_heartbeat_sent (self m))"
  using ping_cycle_not_zombied [of e m] poll_cycle_not_zombied [of e m]
    heartbeat_cycle_raises_zombied [of e hb m m1]
  by (cases t) auto

lemma task_turn_stamp:
  assumes "task_turn e hb t m = (Inr ctl, m1)"
    and "last_heartbeat_sent (self m1) \<noteq> last_heartbeat_sent (self m)"
  shows "t = HeartbeatTask \<and> \<not> closed_event (self m) \<and> heartbeat_cycle e hb m = (Inr Again, m1)"
proof (cases t)
  case PingTask
  with assms ping_cycle_heartbeat_sent [of e m] show ?thesis by simp
next
  case PollTask
  with assms poll_cycle_heartbeat_sent [of e m] show ?thesis by simp
next
  case HeartbeatTask
  with assms heartbeat_cycle_stamp [of e hb m ctl m1] show ?thesis by simp
qed

lemma gather_tasks_zombied_lt:
  "gather_tasks e hb sched m = (Raised GatewayZombiedError, m1) \<Longrightarrow>
   py_lt (last_heartbeat_ack_received (self m1)) (last_heartbeat_sent (self m1))"
proof (induction sched arbitrary: m)
  case Nil
  then show ?case by simp
next
  case (Cons t ts)
  obtain r0 m0 where t: "task_turn e hb t m = (r0, m0)"
    by (cases "task_turn e hb t m")
  show ?case
  proof (cases r0)
    case (Inl err)
    with Cons.prems t have "err = GatewayZombiedError" and "m1 = m0" by simp_all
    with task_turn_not_zombied [of e hb t m m0] t Inl show ?thesis by simp
  next
    case (Inr ctl)
    with Cons.prems t have "gather_tasks e hb ts m0 = (Raised GatewayZombiedError, m1)" by simp
    then show ?thesis by (rule Cons.IH)
  qed
qed

lemma gather_tasks_zombied:
  assumes "gather_tasks e hb sched m = (Raised GatewayZombiedError, m1)"
    and "last_heartbeat_sent (self m) = NaN"
  shows "\<exists>pre post m2 m3.
           sched = pre @ HeartbeatTask # post
         \<and> gather_tasks e hb pre m = (Running, m2)
         \<and> \<not> closed_event (self m2)
         \<and> heartbeat_cycle e hb m2 = (Inr Again, m3)"
  using assms
proof (induction sched arbitrary: m)
  case Nil
  then show ?case by simp
next
  case (Cons t ts)
  obtain r0 m0 where t: "task_turn e hb t m = (r0, m0)"
    by (cases "task_turn e hb t m")
  show ?case
  proof (cases r0)
    case (Inl err)
    with Cons.prems(1) t have "err = GatewayZombiedError" by simp
    with task_turn_not_zombied [of e hb t m m0] t Inl Cons.prems(2) show ?thesis by simp
  next
    case (Inr ctl)
    with Cons.prems(1) t have g: "gather_tasks e hb ts m0 = (Raised GatewayZombiedError, m1)"
      by simp
    show ?thesis
    proof (cases "last_heartbeat_sent (self m0) = NaN")
      case True
      from Cons.IH [OF g True] obtain pre post m2 m3 where
        "ts = pre @ HeartbeatTask # post" and "gather_tasks e hb pre m0 = (Running, m2)"
        and "\<not> closed_event (self m2)" and "heartbeat_cycle e hb m2 = (Inr Again, m3)"
        by blast
      with t Inr have "t # ts = (t # pre) @ HeartbeatTask # post
          \<and> gather_tasks e hb (t # pre) m = (Running, m2)
          \<and> \<not> closed_event (self m2) \<and> heartbeat_cycle e hb m2 = (Inr Again, m3)"
        by simp
      then show ?thesis by blast
    next
      case False
      with Cons.prems(2) have "last_heartbeat_sent (self m0) \<noteq> last_heartbeat_sent (self m)"
        by simp
      from task_turn_stamp [OF t [unfolded Inr] this]
      have "t # ts = [] @ HeartbeatTask # ts \<and> gather_tasks e hb [] m = (Running, m)
          \<and> \<not> closed_event (self m) \<and> heartbeat_cycle e hb m = (Inr Again, m0)"
        by simp
      then show ?thesis by blast
    qed
  qed
qed

lemma connect_handshake_not_zombied:
  "fst (connect_handshake e dial m) \<noteq> Inl GatewayZombiedError"
proof (cases dial)
  case None
  then show ?thesis by (simp add: connect_handshake_def Let_def)
next
  case (Some fs)
  let ?m5 = "m\<lparr>tick := Suc (tick m),
                   self := (self m)\<lparr>session := Some ClientSession, ws := Some fs,
                                    connected_at := Fin (perf_clock e (tick m))\<rparr>,
                   trace := trace m @ [EvSessionOpen, EvWsConnect (url (self m)),
                                      EvCreateTask PingKeepAlive]\<rparr>"
  obtain r0 m6 where r: "recv e ?m5 = (r0, m6)"
    by (cases "recv e ?m5")
  have pt: "py_truediv_1000 j \<noteq> Inl GatewayZombiedError" for j
    by (cases j) auto
  from recv_not_zombied [of e ?m5] r show ?thesis
    using py_getitem_not_zombied pt
    by (auto simp: Some connect_handshake_def Let_def emit_def perf_counter_def and_then_def
                   lift_def
             split: prod.splits sum.splits if_splits)
qed

lemma connect_authenticate_self:
  "self (snd (connect_authenticate e m)) = self m"
  by (simp add: connect_authenticate_def identify_def resume_def send_self)

lemma connect_authenticate_not_zombied:
  "fst (connect_authenticate e m) \<noteq> Inl GatewayZombiedError"
  by (simp add: connect_authenticate_def identify_def resume_def send_not_zombied)

lemma connect_body_zombied:
  assumes "connect_body e dial sched m = (Raised GatewayZombiedError, m1)"
    and "last_heartbeat_sent (self m) = NaN"
  shows "py_lt (last_heartbeat_ack_received (self m1)) (last_heartbeat_sent (self m1))
         \<and> (\<exists>pre post hb m2 m3.
               sched = pre @ HeartbeatTask # post
             \<and> connect_body e dial pre m = (Running, m2)
             \<and> \<not> closed_event (self m2)
             \<and> heartbeat_cycle e hb m2 = (Inr Again, m3))"
proof -
  obtain r0 m0 where h: "connect_handshake e dial m = (r0, m0)"
    by (cases "connect_handshake e dial m")
  obtain r2 mg where a: "connect_authenticate e m0 = (r2, mg)"
    by (cases "connect_authenticate e m0")
  from connect_handshake_not_zombied [of e dial m] h assms(1)
  obtain hb where hb: "r0 = Inr hb"
    by (cases r0) (auto simp: connect_body_def)
  from connect_authenticate_not_zombied [of e m0] a h hb assms(1)
  obtain u where u: "r2 = Inr u"
    by (cases r2) (auto simp: connect_body_def)
  have body: "connect_body e dial s m = gather_tasks e hb s mg" for s
    using h a hb u by (simp add: connect_body_def)
  have "last_heartbeat_sent (self m0) = NaN"
    using connect_handshake_preserved [OF h] assms(2) by (simp add: preserved_def)
  moreover have "self mg = self m0"
    using connect_authenticate_self [of e m0] a by simp
  ultimately have start: "last_heartbeat_sent (self mg) = NaN"
    by simp
  have g: "gather_tasks e hb sched mg = (Raised GatewayZombiedError, m1)"
    using assms(1) body by simp
  from gather_tasks_zombied [OF g start] gather_tasks_zombied_lt [OF g] show ?thesis
    unfolding body by blast
qed


lemma connect_zombied_run:
  "fst (connect demo_env (Some [Text (json_dumps hello), Text (json_dumps heartbeat_ack)])
          [PollTask, HeartbeatTask, HeartbeatTask] (fresh_machine demo_client))
     = Raised GatewayZombiedError"
proof -
  have d: "json_deserialize demo_env (PyStr (json_dumps heartbeat_ack))
             = Some (JObj [(''op'', JInt 11), (''d'', JNull)])"
    using demo_loads_heartbeat_ack by (simp add: demo_env_def heartbeat_ack_def)
  have ser: "json_serialize demo_env = json_dumps" and clk: "perf_clock demo_env = real"
    by (simp_all add: demo_env_def)
  show ?thesis
    by (simp only: connect_identify_running [OF demo_hello demo_identify_fits demo_session_id])
      (simp add: poll_cycle_def heartbeat_cycle_def and_then_def lift_def recv_def decode_def d
          send_def emit_def perf_counter_def Let_def ser clk decimal.simps
          demo_client_def default_client_def init_client_def)
qed

text \<open>
  C10. A client as \<^verbatim>\<open>__init__\<close> builds it, and a client after \<^verbatim>\<open>connect\<close> has terminated, has
  NaN in \<^verbatim>\<open>last_heartbeat_sent\<close> and in \<^verbatim>\<open>last_heartbeat_ack_received\<close>. A turn of the
  heartbeat loop that finds NaN in either of them does not raise the zombie error. So when
  a connection that started with \<^verbatim>\<open>last_heartbeat_sent\<close> at NaN ends with the zombie error,
  an earlier turn of its heartbeat task has sent a heartbeat and stamped it, and at the
  moment of the error the last acknowledgement is older than the last heartbeat.
\<close>

theorem zombied_needs_heartbeat:
  "(init_client zs gs pres lt rt sid sq shid shc tok u = Inr c \<longrightarrow>
      last_heartbeat_sent c = NaN \<and> last_heartbeat_ack_received c = NaN)
   \<and> (connect e dial sched m = (Raised err, m1) \<longrightarrow>
      last_heartbeat_sent (self m1) = NaN \<and> last_heartbeat_ack_received (self m1) = NaN)
   \<and> (isnan (last_heartbeat_sent (self m)) \<or> isnan (last_heartbeat_ack_received (self m)) \<longrightarrow>
      fst (heartbeat_cycle e hb m) \<noteq> Inl GatewayZombiedError)
   \<and> (last_heartbeat_sent (self m) = NaN
        \<and> fst (connect e dial sched m) = Raised GatewayZombiedError \<longrightarrow>
      (\<exists>pre post hb' m2 m3 mz.
          sched = pre @ HeartbeatTask # post
        \<and> connect e dial pre m = (Running, m2)
        \<and> \<not> closed_event (self m2)
        \<and> heartbeat_cycle e hb' m2 = (Inr Again, m3)
        \<and> sent_texts (trace m3) =
            sent_texts (trace m2)
              @ [json_serialize e (JObj [(''op'', JInt 1), (''d'', seq (self m2))])]
        \<and> \<not> isnan (last_heartbeat_sent (self m3))
        \<and> connect_body e dial sched m = (Raised GatewayZombiedError, mz)
        \<and> py_lt (last_heartbeat_ack_received (self mz)) (last_heartbeat_sent (self mz))))"
proof -
  have a: "last_heartbeat_sent c = NaN \<and> last_heartbeat_ack_received c = NaN"
    if "init_client zs gs pres lt rt sid sq shid shc tok u = Inr c"
    using that by (auto simp: init_client_def split: option.splits)
  have b: "last_heartbeat_sent (self m1) = NaN \<and> last_heartbeat_ack_received (self m1) = NaN"
    if "connect e dial sched m = (Raised err, m1)"
    using connect_raised [OF that] by (auto simp: connect_finally_def)
  have c: "fst (heartbeat_cycle e hb m) \<noteq> Inl GatewayZombiedError"
    if "isnan (last_heartbeat_sent (self m)) \<or> isnan (last_heartbeat_ack_received (self m))"
  proof
    assume "fst (heartbeat_cycle e hb m) = Inl GatewayZombiedError"
    then have "heartbeat_cycle e hb m = (Inl GatewayZombiedError, snd (heartbeat_cycle e hb m))"
      by (metis prod.collapse)
    from heartbeat_cycle_raises_zombied [OF this]
    have "py_lt (last_heartbeat_ack_received (self m)) (last_heartbeat_sent (self m))"
      by simp
    with that show False
      by (cases "last_heartbeat_ack_received (self m)"; cases "last_heartbeat_sent (self m)") auto
  qed
  have d: "\<exists>pre post hb' m2 m3 mz.
          sched = pre @ HeartbeatTask # post
        \<and> connect e dial pre m = (Running, m2)
        \<and> \<not> closed_event (self m2)
        \<and> heartbeat_cycle e hb' m2 = (Inr Again, m3)
        \<and> sent_texts (trace m3) =
            sent_texts (trace m2)
              @ [json_serialize e (JObj [(''op'', JInt 1), (''d'', seq (self m2))])]
        \<and> \<not> isnan (last_heartbeat_sent (self m3))
        \<and> connect_body e dial sched m = (Raised GatewayZombiedError, mz)
        \<and> py_lt (last_heartbeat_ack_received (self mz)) (last_heartbeat_sent (self mz))"
    if nan: "last_heartbeat_sent (self m) = NaN"
      and z: "fst (connect e dial sched m) = Raised GatewayZombiedError"
  proof -
    from z obtain mz where body: "connect_body e dial sched m = (Raised GatewayZombiedError, mz)"
      by (cases "connect_body e dial sched m")
        (auto simp: connect_def split: outcome.splits)
    from connect_body_zombied [OF body nan] obtain pre post hb' m2 m3 where
      lt: "py_lt (last_heartbeat_ack_received (self mz)) (last_heartbeat_sent (self mz))"
      and sched: "sched = pre @ HeartbeatTask # post"
      and run: "connect_body e dial pre m = (Running, m2)"
      and latch: "\<not> closed_event (self m2)"
      and cyc: "heartbeat_cycle e hb' m2 = (Inr Again, m3)"
      by blast
    have run': "connect e dial pre m = (Running, m2)"
      using run by (simp add: connect_def)
    from heartbeat_cycle_sent [OF cyc latch] lt sched run' latch cyc body show ?thesis
      by blast
  qed
  from a b c d show ?thesis
    by blast
qed


theorem zombied_needs_heartbeat_witness:
  "last_heartbeat_sent demo_client = NaN \<and> last_heartbeat_ack_received demo_client = NaN
   \<and> fst (heartbeat_cycle demo_env (165/4) (fresh_machine demo_client))
       \<noteq> Inl GatewayZombiedError
   \<and> fst (connect demo_env (Some [Text (json_dumps hello), Text (json_dumps heartbeat_ack)])
            [PollTask, HeartbeatTask, HeartbeatTask] (fresh_machine demo_client))
       = Raised GatewayZombiedError
   \<and> last_heartbeat_sent (self (snd (connect demo_env
            (Some [Text (json_dumps hello), Text (json_dumps heartbeat_ack)])
            [PollTask, HeartbeatTask, HeartbeatTask] (fresh_machine demo_client)))) = NaN
   \<and> (\<exists>pre post hb' m2 m3 mz.
          [PollTask, HeartbeatTask, HeartbeatTask] = pre @ HeartbeatTask # post
        \<and> connect demo_env (Some [Text (json_dumps hello), Text (json_dumps heartbeat_ack)])
              pre (fresh_machine demo_client) = (Running, m2)
        \<and> \<not> closed_event (self m2)
        \<and> heartbeat_cycle demo_env hb' m2 = (Inr Again, m3)
        \<and> \<not> isnan (last_heartbeat_sent (self m3))
        \<and> connect_body demo_env (Some [Text (json_dumps hello), Text (json_dumps heartbeat_ack)])
              [PollTask, HeartbeatTask, HeartbeatTask] (fresh_machine demo_client)
            = (Raised GatewayZombiedError, mz)
        \<and> py_lt (last_heartbeat_ack_received (self mz)) (last_heartbeat_sent (self mz)))"
proof -
  let ?d = "Some [Text (json_dumps hello), Text (json_dumps heartbeat_ack)]"
  let ?s = "[PollTask, HeartbeatTask, HeartbeatTask]"
  let ?m = "fresh_machine demo_client"
  have init: "init_client True True None 1000 10 None JNull (Some 0) (Some 1) ''T''
              ''wss://gateway.discord.gg/'' = Inr demo_client"
    by (simp add: demo_client_def default_client_def init_client_def)
  have nan: "last_heartbeat_sent (self ?m) = NaN" "isnan (last_heartbeat_sent (self ?m))"
    by (simp_all add: demo_simps)
  have run: "connect demo_env ?d ?s ?m = (Raised GatewayZombiedError, snd (connect demo_env ?d ?s ?m))"
    using connect_zombied_run by (metis prod.collapse)
  note t = zombied_needs_heartbeat [where e = demo_env and dial = ?d and sched = ?s and m = ?m
      and err = GatewayZombiedError and ?m1.0 = "snd (connect demo_env ?d ?s ?m)"
      and c = demo_client and hb = "165/4" and zs = True and gs = True and pres = None
      and lt = 1000 and rt = 10 and sid = None and sq = JNull and shid = "Some 0"
      and shc = "Some 1" and tok = "''T''" and u = "''wss://gateway.discord.gg/''"]
  from t init nan run connect_zombied_run show ?thesis
    by blast
qed

end
